theory Spec2Isabelle
  imports Main "HOL-Library.Word"
begin

section \<open>The commit binding of node-gitteh (src/commit.cc)\<close>

text \<open>
  The file binds one libgit2 commit to one JavaScript object. Each method of the C++ class
  \<open>Commit\<close> becomes a function on an explicit state: the C++ object together with the
  properties of its JavaScript handle, the state of the repository inside libgit2, the
  queue of requests handed to the worker pool, and a trace that records, in the order of
  execution, every lock operation, every call into libgit2, every reference-count
  operation and every delivery to a callback. A JavaScript exception thrown by a method
  is the \<open>Inl\<close> branch of its result.
\<close>

subsection \<open>Values of the scripting runtime\<close>

type_synonym handle = nat  \<comment> \<open>a \<open>git_commit*\<close> or \<open>git_tree*\<close>\<close>
type_synonym git_oid = nat
type_synonym callback = nat  \<comment> \<open>a \<open>Persistent<Function>\<close>\<close>

datatype git_signature = Signature string string int

datatype property =
    ID_PROPERTY | MESSAGE_PROPERTY | TIME_PROPERTY | AUTHOR_PROPERTY
  | COMMITTER_PROPERTY | TREE_PROPERTY | PARENTCOUNT_PROPERTY

text \<open>
  What a method can throw. \<open>Error m\<close> is \<open>Exception::Error(String::New(m))\<close>, the
  object built by \<open>THROW_ERROR(m)\<close> and by the explicit \<open>ThrowException\<close> of
  \<open>Save\<close>; \<open>GitError m res\<close> is \<open>THROW_GIT_ERROR(m, res)\<close>. The other three are
  raised by the argument and property macros, which the file uses without defining.
\<close>

datatype js_exception =
    Error string
  | GitError string int
  | ArgumentRequired nat
  | PropertyRequired property
  | SignatureInvalid property

datatype js_value =
    Undefined
  | Null
  | JTrue
  | JString string
  | JInt32 "32 word"
  | JFunction callback
  | JExternal handle
  | JCommitObj handle   \<comment> \<open>an instance of \<open>Commit::constructor_template\<close>, wrapping this \<open>commit_\<close>\<close>
  | JTreeObj handle     \<comment> \<open>an instance of \<open>Tree::constructor_template\<close>, wrapping this \<open>tree_\<close>\<close>
  | JPerson string string int   \<comment> \<open>the object built by \<open>CREATE_PERSON_OBJ\<close>\<close>
  | JErrorObj js_exception
  | JOther string       \<comment> \<open>any other value, with the string \<open>ToString\<close> gives for it\<close>

subsection \<open>The calls into libgit2 and the trace\<close>

datatype git_call =
    GitOidMkstr string
  | GitOidFmt git_oid
  | GitOidAllocfmt git_oid
  | GitCommitLookup git_oid
  | GitTreeLookup git_oid
  | GitCommitId handle
  | GitCommitMessage handle
  | GitCommitAuthor handle
  | GitCommitCommitter handle
  | GitSignatureDup git_signature
  | GitSignatureFree git_signature
  | GitCommitParentcount handle
  | GitCommitTree handle
  | GitCommitSetTree handle handle
  | GitCommitParent handle "32 word"
  | GitCommitAddParent handle handle
  | GitCommitSetMessage handle string
  | GitCommitSetCommitter handle git_signature
  | GitCommitSetAuthor handle git_signature
  | GitObjectWrite handle

record get_parent_request =
  callback :: callback
  index :: "32 word"
  parent :: "handle option"   \<comment> \<open>\<open>None\<close> is \<open>NULL\<close>\<close>

datatype event =
    LockRepository
  | UnlockRepository
  | Git git_call
  | Ref
  | Unref
  | EvRef
  | EvUnref
  | EioCustom get_parent_request
  | TriggerCallback callback "js_value list"
  | Dispose callback
  | SyncRequestTree handle
  | SyncRequestCommit handle
  | AsyncRequestCommit handle callback
  | JsSet property js_value

text \<open>
  The calls that read or write the repository or an object owned by it. The four others
  work on memory of the caller only: parsing and printing an id, freeing a signature that
  was duplicated before.
\<close>

fun repo_access :: "git_call \<Rightarrow> bool" where
  "repo_access (GitOidMkstr _) = False"
| "repo_access (GitOidFmt _) = False"
| "repo_access (GitOidAllocfmt _) = False"
| "repo_access (GitSignatureFree _) = False"
| "repo_access _ = True"

fun backend_call :: "event \<Rightarrow> bool" where
  "backend_call (Git c) = repo_access c"
| "backend_call _ = False"

fun is_write :: "event \<Rightarrow> bool" where
  "is_write (Git (GitObjectWrite _)) = True"
| "is_write _ = False"

subsection \<open>libgit2 as a parameter\<close>

text \<open>
  libgit2 is outside the repository. Its functions are fields of a record over an
  arbitrary repository state \<open>'b\<close>, so every theorem holds for every behaviour of the
  library. A result code is an \<open>int\<close>, \<open>GIT_SUCCESS\<close> is 0, and a \<open>NULL\<close> result is
  \<open>None\<close>.
\<close>

record 'b libgit2 =
  git_oid_mkstr :: "string \<Rightarrow> int \<times> git_oid"
  git_oid_fmt :: "git_oid \<Rightarrow> string"
  git_commit_lookup :: "'b \<Rightarrow> git_oid \<Rightarrow> int \<times> handle"
  git_tree_lookup :: "'b \<Rightarrow> git_oid \<Rightarrow> int \<times> handle"
  git_commit_id :: "'b \<Rightarrow> handle \<Rightarrow> git_oid"
  git_commit_message :: "'b \<Rightarrow> handle \<Rightarrow> string"
  git_commit_author :: "'b \<Rightarrow> handle \<Rightarrow> git_signature"
  git_commit_committer :: "'b \<Rightarrow> handle \<Rightarrow> git_signature"
  git_commit_parentcount :: "'b \<Rightarrow> handle \<Rightarrow> 32 word"
  git_commit_tree :: "'b \<Rightarrow> handle \<Rightarrow> handle option"
  git_commit_set_tree :: "'b \<Rightarrow> handle \<Rightarrow> handle \<Rightarrow> 'b"
  git_commit_parent :: "'b \<Rightarrow> handle \<Rightarrow> 32 word \<Rightarrow> handle option"
  git_commit_add_parent :: "'b \<Rightarrow> handle \<Rightarrow> handle \<Rightarrow> int \<times> 'b"
  git_commit_set_message :: "'b \<Rightarrow> handle \<Rightarrow> string \<Rightarrow> 'b"
  git_commit_set_committer :: "'b \<Rightarrow> handle \<Rightarrow> git_signature \<Rightarrow> 'b"
  git_commit_set_author :: "'b \<Rightarrow> handle \<Rightarrow> git_signature \<Rightarrow> 'b"
  git_object_write :: "'b \<Rightarrow> handle \<Rightarrow> int \<times> 'b"

definition GIT_SUCCESS :: int where
  "GIT_SUCCESS = 0"

subsection \<open>The wrapper and the state\<close>

text \<open>
  The fields \<open>commit_\<close>, \<open>parentCount_\<close> and \<open>refs_\<close> of the C++ object are written
  with a final \<open>f\<close>, since a name cannot end with an underscore here. The class is
  declared in commit.h, which is not among the sources: \<open>parentCount_\<close> is taken to be
  an \<open>int\<close>, as the field \<open>parentCount\<close> of \<open>commit_data\<close> it is assigned from and the
  \<open>Integer::New\<close> it is published with, and is compared and incremented as a signed
  32-bit number.
  A property of the JavaScript object holds a value and the flag \<open>ReadOnly | DontDelete\<close>.
  \<open>Set\<close> leaves a read-only property as it is, \<open>ForceSet\<close> overwrites it; reading an
  absent property gives \<open>Undefined\<close>.
\<close>

record commit =
  commit_f :: handle
  parentCount_f :: "32 word"   \<comment> \<open>a C \<open>int\<close>\<close>
  refs_f :: nat
  props :: "property \<Rightarrow> (js_value \<times> bool) option"

record 'b state =
  this :: commit
  repo :: 'b
  eio_queue :: "get_parent_request list"
  trace :: "event list"

definition emit :: "event \<Rightarrow> 'b state \<Rightarrow> 'b state" where
  "emit e s = s\<lparr>trace := trace s @ [e]\<rparr>"

definition Get :: "property \<Rightarrow> 'b state \<Rightarrow> js_value" where
  "Get p s = (case props (this s) p of None \<Rightarrow> Undefined | Some (v, _) \<Rightarrow> v)"

definition ForceSet :: "property \<Rightarrow> js_value \<Rightarrow> bool \<Rightarrow> 'b state \<Rightarrow> 'b state" where
  "ForceSet p v ro s =
     emit (JsSet p v) (s\<lparr>this := (this s)\<lparr>props := (props (this s))(p \<mapsto> (v, ro))\<rparr>\<rparr>)"

definition Set :: "property \<Rightarrow> js_value \<Rightarrow> bool \<Rightarrow> 'b state \<Rightarrow> 'b state" where
  "Set p v ro s =
     (case props (this s) p of
        Some (_, True) \<Rightarrow> s
      | _ \<Rightarrow> ForceSet p v ro s)"

text \<open>\<open>Value::ToString\<close>, for the values of the model.\<close>

fun digit_string :: "nat \<Rightarrow> string" where
  "digit_string n =
     (if n < 10 then [char_of (48 + n)] else digit_string (n div 10) @ [char_of (48 + n mod 10)])"

fun ToString :: "js_value \<Rightarrow> string" where
  "ToString Undefined = ''undefined''"
| "ToString Null = ''null''"
| "ToString JTrue = ''true''"
| "ToString (JString s) = s"
| "ToString (JInt32 w) =
     (if sint w < 0 then CHR ''-'' # digit_string (nat (- sint w)) else digit_string (nat (sint w)))"
| "ToString (JFunction _) = ''function () { [native code] }''"
| "ToString (JErrorObj (Error m)) = ''Error: '' @ m"
| "ToString (JOther s) = s"
| "ToString _ = ''[object Object]''"

text \<open>
  A string handed over as a \<open>char*\<close> (the value of a \<open>String::Utf8Value\<close>, the argument
  of \<open>String::New\<close> without a length, the argument of the constructor of
  \<open>std::string\<close>) is read up to its first NUL character.
\<close>

definition c_str :: "string \<Rightarrow> string" where
  "c_str s = takeWhile (\<lambda>c. c \<noteq> CHR 0x00) s"

subsection \<open>The macros of gitteh.h\<close>

text \<open>
  Modelled from the spec: the macros \<open>CHECK_PROPERTY\<close> and \<open>GET_SIGNATURE_PROPERTY\<close>
  are defined in gitteh.h, which is not among the sources. The spec has \<open>save\<close> require a
  message that is not absent and an author and a committer that are "present and
  well-formed". A property is absent when reading it gives \<open>Undefined\<close> or \<open>Null\<close>; a
  well-formed signature is a person object, with a name, an e-mail address and a time.
  Both macros leave the enclosing method with an exception when the check fails, and
  neither calls into the repository.
\<close>

definition CHECK_PROPERTY :: "property \<Rightarrow> 'b state \<Rightarrow> js_exception option" where
  "CHECK_PROPERTY p s =
     (if Get p s = Undefined \<or> Get p s = Null then Some (PropertyRequired p) else None)"

definition GET_SIGNATURE_PROPERTY :: "property \<Rightarrow> 'b state \<Rightarrow> js_exception + git_signature" where
  "GET_SIGNATURE_PROPERTY p s =
     (case CHECK_PROPERTY p s of
        Some e \<Rightarrow> Inl e
      | None \<Rightarrow>
          (case Get p s of
             JPerson name email time \<Rightarrow> Inr (Signature name email time)
           | _ \<Rightarrow> Inl (SignatureInvalid p)))"

subsection \<open>\<open>Commit::Save\<close>\<close>

definition Save :: "'b libgit2 \<Rightarrow> js_value list \<Rightarrow> 'b state \<Rightarrow> (js_exception + js_value) \<times> 'b state" where
  "Save git args s =
     (case CHECK_PROPERTY MESSAGE_PROPERTY s of
        Some e \<Rightarrow> (Inl e, s)
      | None \<Rightarrow>
          let message = ToString (Get MESSAGE_PROPERTY s) in
          if length message = 0 then (Inl (Error ''Message must not be empty.''), s)
          else
            (case GET_SIGNATURE_PROPERTY AUTHOR_PROPERTY s of
               Inl e \<Rightarrow> (Inl e, s)
             | Inr author \<Rightarrow>
                 (case GET_SIGNATURE_PROPERTY COMMITTER_PROPERTY s of
                    Inl e \<Rightarrow> (Inl e, s)
                  | Inr committer \<Rightarrow>
                      let c = commit_f (this s);
                          s1 = emit (Git (GitCommitSetMessage c (c_str message)))
                                 (s\<lparr>repo := git_commit_set_message git (repo s) c (c_str message)\<rparr>);
                          s2 = emit (Git (GitCommitSetCommitter c committer))
                                 (s1\<lparr>repo := git_commit_set_committer git (repo s1) c committer\<rparr>);
                          s3 = emit (Git (GitCommitSetAuthor c author))
                                 (s2\<lparr>repo := git_commit_set_author git (repo s2) c author\<rparr>);
                          (result, b) = git_object_write git (repo s3) c;
                          s4 = emit (Git (GitObjectWrite c)) (s3\<lparr>repo := b\<rparr>)
                      in
                      if result \<noteq> GIT_SUCCESS
                      then (Inl (Error ''Failed to save commit object.''), s4)
                      else
                        let commitId = git_commit_id git (repo s4) c;
                            s5 = emit (Git (GitCommitId c)) s4;
                            oidStr = git_oid_fmt git commitId;
                            s6 = emit (Git (GitOidAllocfmt commitId)) s5;
                            s7 = ForceSet ID_PROPERTY (JString (c_str oidStr)) True s6
                        in (Inr JTrue, s7))))"

subsection \<open>Arguments\<close>

text \<open>Reading an argument that was not passed gives \<open>Undefined\<close>, as \<open>args[i]\<close> does.\<close>

definition arg :: "js_value list \<Rightarrow> nat \<Rightarrow> js_value" where
  "arg args i = (if i < length args then args ! i else Undefined)"

text \<open>
  Modelled from the spec: the macros \<open>REQ_ARGS\<close>, \<open>REQ_INT_ARG\<close>, \<open>REQ_FUN_ARG\<close> and
  \<open>REQ_EXT_ARG\<close> of gitteh.h are not among the sources. By their names and their use
  each leaves the method with an exception when the argument is missing or of the wrong
  kind ("wrong argument kind ... surfaced immediately, synchronous" in the spec), and
  otherwise binds the argument. They are written out where they are used, raising
  \<open>ArgumentRequired i\<close> for argument \<open>i\<close>.
\<close>

subsection \<open>The lock, the reference count and the worker pool\<close>

text \<open>
  Modelled from the spec: \<open>Repository::lockRepository\<close> and \<open>unlockRepository\<close> are in
  repository.cc, which is not among the sources; the spec's RepositoryLock has \<open>acquire\<close>
  and \<open>release\<close>. The trace records each.
\<close>

definition lockRepository :: "'b state \<Rightarrow> 'b state" where
  "lockRepository s = emit LockRepository s"

definition unlockRepository :: "'b state \<Rightarrow> 'b state" where
  "unlockRepository s = emit UnlockRepository s"

text \<open>
  Modelled from the spec: \<open>Ref\<close> and \<open>Unref\<close> belong to \<open>ThreadSafeObjectWrap\<close>, which is
  not among the sources; the spec has them increment and decrement the reference count
  of the wrapper.
\<close>

definition Ref_wrap :: "'b state \<Rightarrow> 'b state" where
  "Ref_wrap s = emit Ref (s\<lparr>this := (this s)\<lparr>refs_f := refs_f (this s) + 1\<rparr>\<rparr>)"

definition Unref_wrap :: "'b state \<Rightarrow> 'b state" where
  "Unref_wrap s = emit Unref (s\<lparr>this := (this s)\<lparr>refs_f := refs_f (this s) - 1\<rparr>\<rparr>)"

text \<open>\<open>eio_custom\<close> of libeio puts the request on the queue of the worker pool.\<close>

definition eio_custom :: "get_parent_request \<Rightarrow> 'b state \<Rightarrow> 'b state" where
  "eio_custom request s = emit (EioCustom request) (s\<lparr>eio_queue := eio_queue s @ [request]\<rparr>)"

subsection \<open>\<open>Commit::loadInitData\<close> and \<open>Commit::processInitData\<close>\<close>

record commit_data =
  cd_id :: string
  cd_message :: string
  cd_author :: git_signature
  cd_committer :: git_signature
  cd_parentCount :: "32 word"

definition loadInitData :: "'b libgit2 \<Rightarrow> 'b state \<Rightarrow> commit_data \<times> 'b state" where
  "loadInitData git s =
     (let c = commit_f (this s);
          s1 = lockRepository s;
          commitId = git_commit_id git (repo s1) c;
          s2 = emit (Git (GitCommitId c)) s1;
          did = git_oid_fmt git commitId;
          s3 = emit (Git (GitOidFmt commitId)) s2;
          dmessage = c_str (git_commit_message git (repo s3) c);
          s4 = emit (Git (GitCommitMessage c)) s3;
          dauthor = git_commit_author git (repo s4) c;
          s5 = emit (Git (GitSignatureDup dauthor)) (emit (Git (GitCommitAuthor c)) s4);
          dcommitter = git_commit_committer git (repo s5) c;
          s6 = emit (Git (GitSignatureDup dcommitter)) (emit (Git (GitCommitCommitter c)) s5);
          dparentCount = git_commit_parentcount git (repo s6) c;
          s7 = emit (Git (GitCommitParentcount c)) s6;
          s8 = unlockRepository s7
      in (\<lparr>cd_id = did, cd_message = dmessage, cd_author = dauthor,
           cd_committer = dcommitter, cd_parentCount = dparentCount\<rparr>, s8))"

text \<open>
  Modelled from the spec: the macro \<open>CREATE_PERSON_OBJ\<close> of gitteh.h is not among the
  sources; it builds the object that carries the name, the e-mail address and the time
  of a signature.
\<close>

fun CREATE_PERSON_OBJ :: "git_signature \<Rightarrow> js_value" where
  "CREATE_PERSON_OBJ (Signature name email time) = JPerson name email time"

definition processInitData :: "commit_data option \<Rightarrow> 'b state \<Rightarrow> 'b state" where
  "processInitData data s =
     (case data of
        Some commitData \<Rightarrow>
          let s1 = Set ID_PROPERTY (JString (take 40 (cd_id commitData))) True s;
              s2 = Set MESSAGE_PROPERTY (JString (c_str (cd_message commitData))) False s1;
              authorObj = CREATE_PERSON_OBJ (cd_author commitData);
              s3 = Set AUTHOR_PROPERTY authorObj False s2;
              committerObj = CREATE_PERSON_OBJ (cd_committer commitData);
              s4 = Set COMMITTER_PROPERTY committerObj False s3;
              s5 = s4\<lparr>this := (this s4)\<lparr>parentCount_f := cd_parentCount commitData\<rparr>\<rparr>;
              s6 = Set PARENTCOUNT_PROPERTY (JInt32 (parentCount_f (this s5))) True s5;
              s7 = emit (Git (GitSignatureFree (cd_author commitData))) s6;
              s8 = emit (Git (GitSignatureFree (cd_committer commitData))) s7
          in s8
      | None \<Rightarrow>
          let s1 = Set ID_PROPERTY Null True s;
              s2 = Set MESSAGE_PROPERTY Null False s1;
              s3 = Set AUTHOR_PROPERTY Null False s2;
              s4 = Set COMMITTER_PROPERTY Null False s3;
              s5 = s4\<lparr>this := (this s4)\<lparr>parentCount_f := 0\<rparr>\<rparr>;
              s6 = Set PARENTCOUNT_PROPERTY (JInt32 0) True s5
          in s6)"

text \<open>
  Modelled from the spec: the caller of the two functions is the object factory
  (object_factory.h), which is not among the sources. The spec's load step runs the
  first, then hands its result to the second.
\<close>

definition load :: "'b libgit2 \<Rightarrow> 'b state \<Rightarrow> 'b state" where
  "load git s = (let (data, s1) = loadInitData git s in processInitData (Some data) s1)"

subsection \<open>\<open>Commit::New\<close>\<close>

text \<open>
  The constructor \<open>Commit()\<close> does not initialise \<open>parentCount_\<close>: its first value is the
  parameter \<open>parentCount0\<close>. The new object has no property yet and no reference.
\<close>

definition New :: "32 word \<Rightarrow> js_value list \<Rightarrow> 'b state \<Rightarrow> (js_exception + js_value) \<times> 'b state" where
  "New parentCount0 args s =
     (if length args < 1 then (Inl (ArgumentRequired 0), s)
      else
        (case arg args 0 of
           JExternal theCommit \<Rightarrow>
             (Inr (JCommitObj theCommit),
              s\<lparr>this := \<lparr>commit_f = theCommit, parentCount_f = parentCount0, refs_f = 0,
                          props = Map.empty\<rparr>\<rparr>)
         | _ \<Rightarrow> (Inl (ArgumentRequired 0), s)))"

subsection \<open>\<open>Commit::GetTree\<close> and \<open>Commit::SetTree\<close>\<close>

text \<open>
  Modelled from the spec: \<open>syncRequestObject\<close> and \<open>asyncRequestObject\<close> of the object
  factory are not among the sources. The spec's cache returns the one wrapper of the
  entity: the trace records the request, and the synchronous one gives the JavaScript
  object that wraps the handle.
\<close>

definition GetTree :: "'b libgit2 \<Rightarrow> js_value list \<Rightarrow> 'b state \<Rightarrow> (js_exception + js_value) \<times> 'b state" where
  "GetTree git args s =
     (let c = commit_f (this s);
          tree = git_commit_tree git (repo s) c;
          s1 = emit (Git (GitCommitTree c)) s
      in case tree of
           None \<Rightarrow> (Inr Null, s1)
         | Some t \<Rightarrow> (Inr (JTreeObj t), emit (SyncRequestTree t) s1))"

text \<open>
  The local \<open>git_tree *tree\<close> is declared without a value: \<open>tree0\<close> is what it holds
  before an assignment.
\<close>

definition SetTree :: "'b libgit2 \<Rightarrow> handle \<Rightarrow> js_value list \<Rightarrow> 'b state \<Rightarrow> (js_exception + js_value) \<times> 'b state" where
  "SetTree git tree0 args s =
     (let c = commit_f (this s);
          resolved =
            (case arg args 0 of
               JString str \<Rightarrow>
                 let (res, treeId) = git_oid_mkstr git (c_str str);
                     s1 = emit (Git (GitOidMkstr (c_str str))) s
                 in if res \<noteq> GIT_SUCCESS then Inl (GitError ''Id is invalid'' res, s1)
                    else
                      let (res2, tree) = git_tree_lookup git (repo s1) treeId;
                          s2 = emit (Git (GitTreeLookup treeId)) s1
                      in if res2 \<noteq> GIT_SUCCESS then Inl (GitError ''Error locating tree'' res2, s2)
                         else Inr (tree, s2)
             | JTreeObj tree_f \<Rightarrow> Inr (tree_f, s)
             | _ \<Rightarrow> Inr (tree0, s))
      in case resolved of
           Inl (e, s') \<Rightarrow> (Inl e, s')
         | Inr (tree, s') \<Rightarrow>
             (Inr Undefined,
              emit (Git (GitCommitSetTree c tree))
                (s'\<lparr>repo := git_commit_set_tree git (repo s') c tree\<rparr>)))"

subsection \<open>\<open>Commit::GetParent\<close> and its two worker-pool functions\<close>

definition GetParent :: "'b libgit2 \<Rightarrow> js_value list \<Rightarrow> 'b state \<Rightarrow> (js_exception + js_value) \<times> 'b state" where
  "GetParent git args s =
     (if length args < 1 then (Inl (ArgumentRequired 0), s)
      else
        (case arg args 0 of
           JInt32 indexArg \<Rightarrow>
             if sint indexArg \<ge> sint (parentCount_f (this s))
             then (Inl (Error ''Parent commit index is out of bounds.''), s)
             else if length args > 1 then
               (case arg args (length args - 1) of
                  JFunction callbackArg \<Rightarrow>
                    let request = \<lparr>callback = callbackArg, index = indexArg, parent = None\<rparr>;
                        s1 = Ref_wrap s;
                        s2 = eio_custom request s1;
                        s3 = emit EvRef s2
                    in (Inr Undefined, s3)
                | _ \<Rightarrow> (Inl (ArgumentRequired (length args - 1)), s))
             else
               let c = commit_f (this s);
                   s1 = lockRepository s;
                   parent = git_commit_parent git (repo s1) c indexArg;
                   s2 = emit (Git (GitCommitParent c indexArg)) s1;
                   s3 = unlockRepository s2
               in (case parent of
                     None \<Rightarrow> (Inl (Error ''Error getting parent.''), s3)
                   | Some p \<Rightarrow> (Inr (JCommitObj p), emit (SyncRequestCommit p) s3))
         | _ \<Rightarrow> (Inl (ArgumentRequired 0), s)))"

text \<open>
  \<open>EIO_GetParent\<close> is the function libeio runs on a worker thread. It returns an \<open>int\<close>
  and the request with its \<open>parent\<close> field assigned; it has no way to throw.
\<close>

definition EIO_GetParent :: "'b libgit2 \<Rightarrow> get_parent_request \<Rightarrow> 'b state \<Rightarrow> int \<times> get_parent_request \<times> 'b state" where
  "EIO_GetParent git reqData s =
     (let c = commit_f (this s);
          s1 = lockRepository s;
          p = git_commit_parent git (repo s1) c (index reqData);
          s2 = emit (Git (GitCommitParent c (index reqData))) s1;
          s3 = unlockRepository s2
      in (0, reqData\<lparr>parent := p\<rparr>, s3))"

text \<open>
  \<open>EIO_AfterGetParent\<close> is the function libeio runs on the thread of the event loop once
  the worker is done. Modelled from the spec: the macro \<open>TRIGGER_CALLBACK\<close> of gitteh.h
  is not among the sources; it calls the callback of the request with the two
  \<open>callbackArgs\<close>, the delivery "through the completion channel" of the spec.
\<close>

definition EIO_AfterGetParent :: "get_parent_request \<Rightarrow> 'b state \<Rightarrow> int \<times> 'b state" where
  "EIO_AfterGetParent reqData s =
     (let s1 = emit EvUnref s;
          s2 = Unref_wrap s1
      in case parent reqData of
           None \<Rightarrow>
             let error = JErrorObj (Error ''Couldn't get parent commit.'');
                 callbackArgs = [error, Null];
                 s3 = emit (TriggerCallback (callback reqData) callbackArgs) s2;
                 s4 = emit (Dispose (callback reqData)) s3
             in (0, s4)
         | Some p \<Rightarrow> (0, emit (AsyncRequestCommit p (callback reqData)) s2))"

text \<open>
  One turn of libeio for the oldest request of the queue: the worker function, then the
  completion function with the same request.
\<close>

definition eio_poll :: "'b libgit2 \<Rightarrow> 'b state \<Rightarrow> 'b state" where
  "eio_poll git s =
     (case eio_queue s of
        [] \<Rightarrow> s
      | request # rest \<Rightarrow>
          let (r, request', s1) = EIO_GetParent git request (s\<lparr>eio_queue := rest\<rparr>);
              (r', s2) = EIO_AfterGetParent request' s1
          in s2)"

text \<open>\<open>n\<close> turns of libeio, one after the other: the requests are served oldest first.\<close>

fun eio_turns :: "'b libgit2 \<Rightarrow> nat \<Rightarrow> 'b state \<Rightarrow> 'b state" where
  "eio_turns git 0 s = s"
| "eio_turns git (Suc n) s = eio_turns git n (eio_poll git s)"

subsection \<open>\<open>Commit::AddParent\<close>\<close>

definition AddParent :: "'b libgit2 \<Rightarrow> js_value list \<Rightarrow> 'b state \<Rightarrow> (js_exception + js_value) \<times> 'b state" where
  "AddParent git args s =
     (if length args < 1 then (Inl (ArgumentRequired 0), s)
      else
        let c = commit_f (this s);
            resolved =
              (case arg args 0 of
                 JString str \<Rightarrow>
                   let (res, commitId) = git_oid_mkstr git (c_str str);
                       s1 = emit (Git (GitOidMkstr (c_str str))) s
                   in if res \<noteq> GIT_SUCCESS then Inl (GitError ''Id is invalid'' res, s1)
                      else
                        let (res2, parentCommit) = git_commit_lookup git (repo s1) commitId;
                            s2 = emit (Git (GitCommitLookup commitId)) s1
                        in if res2 \<noteq> GIT_SUCCESS
                           then Inl (GitError ''Error locating commit'' res2, s2)
                           else Inr (parentCommit, s2)
               | JCommitObj otherCommit \<Rightarrow> Inr (otherCommit, s)
               | _ \<Rightarrow> Inl (Error ''Invalid argument.'', s))
        in case resolved of
             Inl (e, s') \<Rightarrow> (Inl e, s')
           | Inr (parentCommit, s') \<Rightarrow>
               let (res3, b) = git_commit_add_parent git (repo s') c parentCommit;
                   s3 = emit (Git (GitCommitAddParent c parentCommit)) (s'\<lparr>repo := b\<rparr>);
                   s4 = s3\<lparr>this := (this s3)\<lparr>parentCount_f := parentCount_f (this s3) + 1\<rparr>\<rparr>;
                   s5 = ForceSet PARENTCOUNT_PROPERTY (JInt32 (parentCount_f (this s4))) True s4
               in (Inr Undefined, s5))"

subsection \<open>Reading a trace\<close>

text \<open>The events a method adds to the trace: those of the state after it, past those before.\<close>

definition new_events :: "'b state \<Rightarrow> 'b state \<Rightarrow> event list" where
  "new_events s s' = drop (length (trace s)) (trace s')"

text \<open>
  The lock discipline on a trace, read from left to right with the flag "the lock is
  held": the lock is taken only when free and released only when held, and a call that
  touches the repository happens only while it is held.
\<close>

fun lock_ok :: "bool \<Rightarrow> event list \<Rightarrow> bool" where
  "lock_ok held [] = True"
| "lock_ok held (LockRepository # es) = (if held then False else lock_ok True es)"
| "lock_ok held (UnlockRepository # es) = (if held then lock_ok False es else False)"
| "lock_ok held (Git c # es) = (if repo_access c then held \<and> lock_ok held es else lock_ok held es)"
| "lock_ok held (e # es) = lock_ok held es"

text \<open>The events that take or release the lock or touch the repository.\<close>

fun locked_work :: "event \<Rightarrow> bool" where
  "locked_work LockRepository = True"
| "locked_work UnlockRepository = True"
| "locked_work e = backend_call e"

text \<open>
  From \<open>s\<close> to \<open>s'\<close> the trace was only extended, and by no event that takes or
  releases the lock or touches the repository.
\<close>

definition quiet_step :: "'b state \<Rightarrow> 'b state \<Rightarrow> bool" where
  "quiet_step s s' =
     (take (length (trace s)) (trace s') = trace s \<and> filter locked_work (new_events s s') = [])"

text \<open>
  "The count is released only after the completion was delivered": reading the trace from
  left to right, an \<open>Unref\<close> is met only once a callback was triggered or handed to the
  factory for delivery.
\<close>

fun unref_after_delivery :: "bool \<Rightarrow> event list \<Rightarrow> bool" where
  "unref_after_delivery delivered [] = True"
| "unref_after_delivery delivered (Unref # es) =
     (if delivered then unref_after_delivery delivered es else False)"
| "unref_after_delivery delivered (TriggerCallback cb vs # es) = unref_after_delivery True es"
| "unref_after_delivery delivered (AsyncRequestCommit p cb # es) = unref_after_delivery True es"
| "unref_after_delivery delivered (e # es) = unref_after_delivery delivered es"

subsection \<open>A script calling the wrapper\<close>

text \<open>
  What the JavaScript side can do with one wrapper between two loads: call one of its
  five methods, assign to one of its properties (an assignment does nothing to a
  read-only property), or let libeio take its turn. An exception is caught by the script,
  which goes on. \<open>run\<close> also counts the calls of \<open>addParent\<close> that returned.
\<close>

datatype method_call =
    CallGetTree "js_value list"
  | CallSetTree handle "js_value list"
  | CallGetParent "js_value list"
  | CallAddParent "js_value list"
  | CallSave "js_value list"
  | Assign property js_value
  | EioPoll

fun call :: "'b libgit2 \<Rightarrow> method_call \<Rightarrow> 'b state \<Rightarrow> (js_exception + js_value) \<times> 'b state" where
  "call git (CallGetTree args) s = GetTree git args s"
| "call git (CallSetTree tree0 args) s = SetTree git tree0 args s"
| "call git (CallGetParent args) s = GetParent git args s"
| "call git (CallAddParent args) s = AddParent git args s"
| "call git (CallSave args) s = Save git args s"
| "call git (Assign p v) s = (Inr v, Set p v False s)"
| "call git EioPoll s = (Inr Undefined, eio_poll git s)"

fun added :: "method_call \<Rightarrow> (js_exception + js_value) \<Rightarrow> nat" where
  "added (CallAddParent args) (Inr v) = 1"
| "added c r = 0"

fun run :: "'b libgit2 \<Rightarrow> method_call list \<Rightarrow> 'b state \<Rightarrow> nat \<times> 'b state" where
  "run git [] s = (0, s)"
| "run git (c # cs) s =
     (let (r, s1) = call git c s;
          (n, s2) = run git cs s1
      in (added c r + n, s2))"

text \<open>
  The visible count agrees with the field of the C++ object, and is read-only: what
  \<open>processInitData\<close> sets up on a new object.
\<close>

definition count_published :: "'b state \<Rightarrow> bool" where
  "count_published s =
     (props (this s) PARENTCOUNT_PROPERTY = Some (JInt32 (parentCount_f (this s)), True))"

subsection \<open>A small libgit2 for concrete runs\<close>

text \<open>
  A repository state is the number of objects written so far. Ids of 40 characters
  parse; the commit with id 1 is handle 11 and its tree is handle 21; a commit has one
  parent; the first write succeeds and a later one fails; appending a parent reports a
  failure.
\<close>

definition demo_git :: "nat libgit2" where
  "demo_git = \<lparr>
     git_oid_mkstr = (\<lambda>str. if length str = 40 then (0, 1) else (-1, 0)),
     git_oid_fmt = (\<lambda>oid. replicate 40 (CHR ''a'')),
     git_commit_lookup = (\<lambda>b oid. if oid = 1 then (0, 11) else (-3, 0)),
     git_tree_lookup = (\<lambda>b oid. if oid = 1 then (0, 21) else (-3, 0)),
     git_commit_id = (\<lambda>b c. 1),
     git_commit_message = (\<lambda>b c. ''initial''),
     git_commit_author = (\<lambda>b c. Signature ''A'' ''a@x'' 1),
     git_commit_committer = (\<lambda>b c. Signature ''C'' ''c@x'' 2),
     git_commit_parentcount = (\<lambda>b c. 1),
     git_commit_tree = (\<lambda>b c. Some 21),
     git_commit_set_tree = (\<lambda>b c t. b),
     git_commit_parent = (\<lambda>b c i. if i = 0 then Some 11 else None),
     git_commit_add_parent = (\<lambda>b c p. (-1, b)),
     git_commit_set_message = (\<lambda>b c m. b),
     git_commit_set_committer = (\<lambda>b c g. b),
     git_commit_set_author = (\<lambda>b c g. b),
     git_object_write = (\<lambda>b c. if b = 0 then (0, Suc b) else (-1, b))
   \<rparr>"

text \<open>
  A new object for handle 5 over the repository state \<open>b\<close>, as \<open>New\<close> leaves it, and the
  same object once loaded.
\<close>

definition fresh :: "nat \<Rightarrow> nat state" where
  "fresh b =
     \<lparr>this = \<lparr>commit_f = 5, parentCount_f = 7, refs_f = 0, props = Map.empty\<rparr>,
      repo = b, eio_queue = [], trace = []\<rparr>"

definition loaded :: "nat \<Rightarrow> nat state" where
  "loaded b = (load demo_git (fresh b))\<lparr>trace := []\<rparr>"

text \<open>The loaded object with one deferred \<open>getParent\<close> for index -1 submitted and not yet served.\<close>

definition pending :: "nat state" where
  "pending = snd (GetParent demo_git [JInt32 (- 1), JFunction 8] (loaded 0))"

definition created :: "nat state" where
  "created = (processInitData None (fresh 0))\<lparr>trace := []\<rparr>"

section \<open>Properties\<close>

subsection \<open>Basic facts\<close>

lemma trace_emit [simp]: "trace (emit e s) = trace s @ [e]"
  and this_emit [simp]: "this (emit e s) = this s"
  and repo_emit [simp]: "repo (emit e s) = repo s"
  and queue_emit [simp]: "eio_queue (emit e s) = eio_queue s"
  by (simp_all add: emit_def)

lemma new_events_append [simp]: "trace s' = trace s @ es \<Longrightarrow> new_events s s' = es"
  by (simp add: new_events_def)

lemma new_events_same [simp]: "new_events s s = []"
  by (simp add: new_events_def)

lemma c_str_Nil [simp]: "c_str [] = []"
  and c_str_Cons [simp]: "c_str (x # xs) = (if x = CHR 0x00 then [] else x # c_str xs)"
  and c_str_idem [simp]: "c_str (c_str s) = c_str s"
  and c_str_replicate [simp]: "x \<noteq> CHR 0x00 \<Longrightarrow> c_str (replicate n x) = replicate n x"
  by (simp_all add: c_str_def takeWhile_idem)

lemmas load_defs =
  load_def loadInitData_def processInitData_def Set_def ForceSet_def lockRepository_def
  unlockRepository_def Let_def

lemma loaded_facts:
  "Get MESSAGE_PROPERTY (loaded b) = JString ''initial''"
  "Get AUTHOR_PROPERTY (loaded b) = JPerson ''A'' ''a@x'' 1"
  "Get COMMITTER_PROPERTY (loaded b) = JPerson ''C'' ''c@x'' 2"
  "Get PARENTCOUNT_PROPERTY (loaded b) = JInt32 1"
  "commit_f (this (loaded b)) = 5"
  "parentCount_f (this (loaded b)) = 1"
  "refs_f (this (loaded b)) = 0"
  "repo (loaded b) = b"
  "eio_queue (loaded b) = []"
  "trace (loaded b) = []"
  by (simp_all add: loaded_def fresh_def demo_git_def Get_def load_defs)

lemma created_facts:
  "Get ID_PROPERTY created = Null"
  "Get MESSAGE_PROPERTY created = Null"
  "Get PARENTCOUNT_PROPERTY created = JInt32 0"
  "commit_f (this created) = 5"
  "parentCount_f (this created) = 0"
  "repo created = 0"
  "eio_queue created = []"
  "trace created = []"
  by (simp_all add: created_def fresh_def Get_def load_defs)

subsection \<open>\<open>save\<close>\<close>

lemma Save_absent:
  "Get MESSAGE_PROPERTY s = Undefined \<or> Get MESSAGE_PROPERTY s = Null \<Longrightarrow>
   Save git args s = (Inl (PropertyRequired MESSAGE_PROPERTY), s)"
  by (simp add: Save_def CHECK_PROPERTY_def)

lemma Save_empty:
  "Get MESSAGE_PROPERTY s \<noteq> Undefined \<Longrightarrow> Get MESSAGE_PROPERTY s \<noteq> Null \<Longrightarrow>
   ToString (Get MESSAGE_PROPERTY s) = [] \<Longrightarrow>
   Save git args s = (Inl (Error ''Message must not be empty.''), s)"
  by (simp add: Save_def CHECK_PROPERTY_def)

lemma Save_valid_trace:
  assumes "Get MESSAGE_PROPERTY s \<noteq> Undefined" "Get MESSAGE_PROPERTY s \<noteq> Null"
    and "ToString (Get MESSAGE_PROPERTY s) \<noteq> []"
    and "GET_SIGNATURE_PROPERTY AUTHOR_PROPERTY s = Inr author"
    and "GET_SIGNATURE_PROPERTY COMMITTER_PROPERTY s = Inr committer"
  shows "\<exists>tail. trace (snd (Save git args s)) = trace s @
      [Git (GitCommitSetMessage (commit_f (this s)) (c_str (ToString (Get MESSAGE_PROPERTY s)))),
       Git (GitCommitSetCommitter (commit_f (this s)) committer),
       Git (GitCommitSetAuthor (commit_f (this s)) author),
       Git (GitObjectWrite (commit_f (this s)))] @ tail \<and> filter is_write tail = []"
  using assms
  by (simp add: Save_def CHECK_PROPERTY_def Let_def ForceSet_def split: prod.splits)

lemma Save_failure_this:
  "Save git args s = (Inl e, s') \<Longrightarrow> this s' = this s"
  by (auto simp add: Save_def Let_def ForceSet_def
      split: option.splits if_splits sum.splits prod.splits)

text \<open>
  C1. When the message of the wrapper is absent (\<open>Undefined\<close> or \<open>Null\<close>) or its string is
  empty, \<open>save\<close> throws (the "required property" exception of \<open>CHECK_PROPERTY\<close>, or
  "Message must not be empty.") and returns the state it was given: the trace gains no
  event, so no call into libgit2 was made, the write least of all. When the message is
  present and not empty and the author and the committer are well-formed signatures, the
  events added by \<open>save\<close> hold exactly one \<open>git_object_write\<close>, whatever libgit2 answers.
\<close>

theorem Save_fail_fast:
  "(Get MESSAGE_PROPERTY s = Undefined \<or> Get MESSAGE_PROPERTY s = Null
      \<or> ToString (Get MESSAGE_PROPERTY s) = [] \<longrightarrow>
      fst (Save git args s) =
        Inl (if Get MESSAGE_PROPERTY s = Undefined \<or> Get MESSAGE_PROPERTY s = Null
             then PropertyRequired MESSAGE_PROPERTY
             else Error ''Message must not be empty.'')
      \<and> snd (Save git args s) = s
      \<and> new_events s (snd (Save git args s)) = [])
   \<and> (Get MESSAGE_PROPERTY s \<noteq> Undefined \<and> Get MESSAGE_PROPERTY s \<noteq> Null
      \<and> ToString (Get MESSAGE_PROPERTY s) \<noteq> []
      \<and> GET_SIGNATURE_PROPERTY AUTHOR_PROPERTY s = Inr author
      \<and> GET_SIGNATURE_PROPERTY COMMITTER_PROPERTY s = Inr committer \<longrightarrow>
      filter is_write (new_events s (snd (Save git args s)))
        = [Git (GitObjectWrite (commit_f (this s)))])"
proof (intro conjI impI)
  assume a: "Get MESSAGE_PROPERTY s = Undefined \<or> Get MESSAGE_PROPERTY s = Null
      \<or> ToString (Get MESSAGE_PROPERTY s) = []"
  have both: "Save git args s =
        (Inl (if Get MESSAGE_PROPERTY s = Undefined \<or> Get MESSAGE_PROPERTY s = Null
              then PropertyRequired MESSAGE_PROPERTY
              else Error ''Message must not be empty.''), s)"
  proof (cases "Get MESSAGE_PROPERTY s = Undefined \<or> Get MESSAGE_PROPERTY s = Null")
    case True
    then show ?thesis using Save_absent [of s git args] by simp
  next
    case False
    then show ?thesis using a Save_empty [of s git args] by simp
  qed
  show "fst (Save git args s) =
        Inl (if Get MESSAGE_PROPERTY s = Undefined \<or> Get MESSAGE_PROPERTY s = Null
             then PropertyRequired MESSAGE_PROPERTY
             else Error ''Message must not be empty.'')"
    by (simp add: both)
  show eq: "snd (Save git args s) = s"
    by (simp add: both)
  show "new_events s (snd (Save git args s)) = []"
    by (simp add: eq)
next
  assume "Get MESSAGE_PROPERTY s \<noteq> Undefined \<and> Get MESSAGE_PROPERTY s \<noteq> Null
      \<and> ToString (Get MESSAGE_PROPERTY s) \<noteq> []
      \<and> GET_SIGNATURE_PROPERTY AUTHOR_PROPERTY s = Inr author
      \<and> GET_SIGNATURE_PROPERTY COMMITTER_PROPERTY s = Inr committer"
  then obtain tail where
    "trace (snd (Save git args s)) = trace s @
      [Git (GitCommitSetMessage (commit_f (this s)) (c_str (ToString (Get MESSAGE_PROPERTY s)))),
       Git (GitCommitSetCommitter (commit_f (this s)) committer),
       Git (GitCommitSetAuthor (commit_f (this s)) author),
       Git (GitObjectWrite (commit_f (this s)))] @ tail" and "filter is_write tail = []"
    using Save_valid_trace [of s author committer git args] by blast
  then show "filter is_write (new_events s (snd (Save git args s)))
        = [Git (GitObjectWrite (commit_f (this s)))]"
    by simp
qed

theorem Save_fail_fast_witness:
  "fst (Save demo_git [] created) = Inl (PropertyRequired MESSAGE_PROPERTY)
   \<and> new_events created (snd (Save demo_git [] created)) = []
   \<and> filter is_write (new_events (loaded 0) (snd (Save demo_git [] (loaded 0))))
       = [Git (GitObjectWrite 5)]"
  using Save_fail_fast [where s = created and git = demo_git and args = "[]"]
    Save_fail_fast [where s = "loaded 0" and git = demo_git and args = "[]"
      and author = "Signature ''A'' ''a@x'' 1" and committer = "Signature ''C'' ''c@x'' 2"]
  by (simp add: created_facts loaded_facts GET_SIGNATURE_PROPERTY_def CHECK_PROPERTY_def)

text \<open>
  C4. A \<open>save\<close> that throws, for a failed validation or a failed write, leaves the wrapper
  as it was: the C++ object and every property of the JavaScript object, the \<open>id\<close> among
  them, are those before the call. (The three setters that precede the write have by
  then changed the commit inside libgit2; that object is not a field of the wrapper.)
\<close>

theorem Save_failure_leaves_wrapper:
  "fst (Save git args s) = Inl e \<Longrightarrow>
   this (snd (Save git args s)) = this s
   \<and> Get ID_PROPERTY (snd (Save git args s)) = Get ID_PROPERTY s"
  using Save_failure_this [of git args s e "snd (Save git args s)"]
  by (simp add: Get_def prod_eq_iff)

theorem Save_failure_leaves_wrapper_witness:
  "fst (Save demo_git [] (loaded 1)) = Inl (Error ''Failed to save commit object.'')
   \<and> this (snd (Save demo_git [] (loaded 1))) = this (loaded 1)
   \<and> Get ID_PROPERTY (snd (Save demo_git [] (loaded 1))) = Get ID_PROPERTY (loaded 1)"
proof -
  have "fst (Save demo_git [] (loaded 1)) = Inl (Error ''Failed to save commit object.'')"
    by (simp add: Save_def loaded_facts GET_SIGNATURE_PROPERTY_def CHECK_PROPERTY_def
        demo_git_def GIT_SUCCESS_def Let_def)
  with Save_failure_leaves_wrapper [of demo_git "[]" "loaded 1"] show ?thesis
    by simp
qed

subsection \<open>\<open>addParent\<close> and the parent count\<close>

text \<open>
  The two ways out of \<open>AddParent\<close>: an exception, with the wrapper untouched and no append
  in the trace, or \<open>Undefined\<close>, with the count one higher and published.
\<close>

lemma AddParent_outcome:
  "(\<exists>e. fst (AddParent git args s) = Inl e \<and> this (snd (AddParent git args s)) = this s
      \<and> (\<forall>p. Git (GitCommitAddParent (commit_f (this s)) p)
            \<notin> set (new_events s (snd (AddParent git args s)))))
   \<or> (fst (AddParent git args s) = Inr Undefined
      \<and> this (snd (AddParent git args s)) =
          (this s)\<lparr>parentCount_f := parentCount_f (this s) + 1,
                   props := (props (this s))(PARENTCOUNT_PROPERTY \<mapsto>
                              (JInt32 (parentCount_f (this s) + 1), True))\<rparr>)"
  by (simp add: AddParent_def Let_def ForceSet_def split: js_value.splits prod.splits)

text \<open>
  C9. Whenever \<open>AddParent\<close> reaches \<open>git_commit_add_parent\<close> (the call is among the events
  it adds), it returns \<open>Undefined\<close> and the count, in the C++ object and in the visible
  property, is one more than before. This holds for every libgit2, so for every result
  code of the append: the code is never looked at.
\<close>

theorem AddParent_ignores_append_result:
  "Git (GitCommitAddParent (commit_f (this s)) p) \<in> set (new_events s (snd (AddParent git args s)))
   \<Longrightarrow> fst (AddParent git args s) = Inr Undefined
     \<and> parentCount_f (this (snd (AddParent git args s))) = parentCount_f (this s) + 1
     \<and> Get PARENTCOUNT_PROPERTY (snd (AddParent git args s)) = JInt32 (parentCount_f (this s) + 1)"
  using AddParent_outcome [of git args s] by (auto simp: Get_def)

theorem AddParent_ignores_append_result_witness:
  "fst (git_commit_add_parent demo_git 0 5 3) \<noteq> GIT_SUCCESS
   \<and> Git (GitCommitAddParent (commit_f (this (loaded 0))) 3)
       \<in> set (new_events (loaded 0) (snd (AddParent demo_git [JCommitObj 3] (loaded 0))))
   \<and> fst (AddParent demo_git [JCommitObj 3] (loaded 0)) = Inr Undefined
   \<and> parentCount_f (this (snd (AddParent demo_git [JCommitObj 3] (loaded 0)))) = 2
   \<and> Get PARENTCOUNT_PROPERTY (snd (AddParent demo_git [JCommitObj 3] (loaded 0))) = JInt32 2"
proof -
  have "trace (snd (AddParent demo_git [JCommitObj 3] (loaded 0)))
          = [Git (GitCommitAddParent 5 3), JsSet PARENTCOUNT_PROPERTY (JInt32 2)]"
    by (simp add: AddParent_def arg_def Let_def ForceSet_def loaded_facts split_beta)
  then have "Git (GitCommitAddParent (commit_f (this (loaded 0))) 3)
       \<in> set (new_events (loaded 0) (snd (AddParent demo_git [JCommitObj 3] (loaded 0))))"
    by (simp add: new_events_def loaded_facts)
  with AddParent_ignores_append_result [of "loaded 0" 3 demo_git "[JCommitObj 3]"]
  show ?thesis
    by (simp add: loaded_facts demo_git_def GIT_SUCCESS_def)
qed

text \<open>What the other things a script can do leave of the count.\<close>

lemma GetTree_this: "this (snd (GetTree git args s)) = this s"
  by (simp add: GetTree_def Let_def split: option.splits)

lemma SetTree_this: "this (snd (SetTree git tree0 args s)) = this s"
  by (simp add: SetTree_def Let_def split: js_value.splits prod.splits)

lemma GetParent_count:
  "parentCount_f (this (snd (GetParent git args s))) = parentCount_f (this s)
   \<and> props (this (snd (GetParent git args s))) = props (this s)"
  by (simp add: GetParent_def Let_def Ref_wrap_def eio_custom_def lockRepository_def
      unlockRepository_def split: js_value.splits option.splits)

lemma Save_count:
  "parentCount_f (this (snd (Save git args s))) = parentCount_f (this s)
   \<and> props (this (snd (Save git args s))) PARENTCOUNT_PROPERTY
       = props (this s) PARENTCOUNT_PROPERTY"
  by (simp add: Save_def Let_def ForceSet_def split: option.splits sum.splits prod.splits)

lemma eio_poll_count:
  "parentCount_f (this (eio_poll git s)) = parentCount_f (this s)
   \<and> props (this (eio_poll git s)) = props (this s)"
  by (simp add: eio_poll_def EIO_GetParent_def EIO_AfterGetParent_def Let_def Unref_wrap_def
      lockRepository_def unlockRepository_def split: list.splits option.splits)

lemma Assign_count:
  "count_published s \<Longrightarrow> this (Set PARENTCOUNT_PROPERTY v ro s) = this s"
  by (simp add: Set_def count_published_def)

lemma Assign_other:
  "p \<noteq> PARENTCOUNT_PROPERTY \<Longrightarrow>
     parentCount_f (this (Set p v ro s)) = parentCount_f (this s)
     \<and> props (this (Set p v ro s)) PARENTCOUNT_PROPERTY = props (this s) PARENTCOUNT_PROPERTY"
  by (simp add: Set_def ForceSet_def split: option.splits prod.splits bool.splits)

lemma call_count:
  assumes "count_published s"
  shows "count_published (snd (call git c s))
    \<and> parentCount_f (this (snd (call git c s)))
        = parentCount_f (this s) + of_nat (added c (fst (call git c s)))"
proof (cases c)
  case (CallAddParent args)
  with assms AddParent_outcome [of git args s] show ?thesis
    by (auto simp: count_published_def)
next
  case (Assign p v)
  with assms Assign_count [of s v False] Assign_other [of p v False s] show ?thesis
    by (cases "p = PARENTCOUNT_PROPERTY") (auto simp: count_published_def)
qed (use assms in \<open>simp_all add: count_published_def GetTree_this SetTree_this
      GetParent_count Save_count eio_poll_count\<close>)

lemma run_count:
  "count_published s \<Longrightarrow>
   count_published (snd (run git cs s))
   \<and> parentCount_f (this (snd (run git cs s)))
       = parentCount_f (this s) + of_nat (fst (run git cs s))"
proof (induction cs arbitrary: s)
  case Nil
  then show ?case by simp
next
  case (Cons c cs)
  from call_count [OF Cons.prems, of git c]
  have 1: "count_published (snd (call git c s))"
    and 2: "parentCount_f (this (snd (call git c s)))
              = parentCount_f (this s) + of_nat (added c (fst (call git c s)))"
    by simp_all
  from Cons.IH [OF 1] 2 show ?case
    by (simp add: split_beta Let_def)
qed

lemma sint_no_overflow:
  "sint (n :: 32 word) + int k < 2 ^ 31 \<Longrightarrow> sint (n + of_nat k) = sint n + int k"
proof -
  assume a: "sint n + int k < 2 ^ 31"
  have l: "- (2 ^ 31) \<le> sint n" using sint_ge [of n] by simp
  have "sint (n + of_nat k) = sint (word_of_int (sint n + int k) :: 32 word)"
    by simp
  also have "\<dots> = signed_take_bit 31 (sint n + int k)"
    by (simp only: sint_sbintrunc') simp
  also have "\<dots> = sint n + int k"
    using a l by (simp add: signed_take_bit_int_eq_self)
  finally show ?thesis .
qed

lemma processInitData_publishes_count:
  "props (this s) PARENTCOUNT_PROPERTY = None \<Longrightarrow> count_published (processInitData data s)"
  by (cases data) (simp_all add: count_published_def load_defs split: option.splits prod.splits bool.splits)

text \<open>
  C3. Take a wrapper whose visible count is the one of its C++ object, as
  \<open>processInitData\<close> publishes it, and any script over it: calls of the five methods
  with any arguments, assignments to properties, turns of libeio. If \<open>N\<close> of the calls of
  \<open>addParent\<close> returned, the count of the C++ object and the visible property both are
  the count before plus \<open>N\<close>, for every libgit2: nothing is read back from it. The
  count is a C \<open>int\<close>; as long as the sum stays below \<open>2 ^ 31\<close> the equation holds for
  the signed values as well.
\<close>

theorem parent_count_locally_authoritative:
  "count_published s \<Longrightarrow>
   parentCount_f (this (snd (run git cs s)))
     = parentCount_f (this s) + of_nat (fst (run git cs s))
   \<and> Get PARENTCOUNT_PROPERTY (snd (run git cs s))
     = JInt32 (parentCount_f (this s) + of_nat (fst (run git cs s)))
   \<and> (sint (parentCount_f (this s)) + int (fst (run git cs s)) < 2 ^ 31 \<longrightarrow>
        sint (parentCount_f (this (snd (run git cs s))))
          = sint (parentCount_f (this s)) + int (fst (run git cs s)))"
  using run_count [of s git cs]
    sint_no_overflow [of "parentCount_f (this s)" "fst (run git cs s)"]
  by (simp add: count_published_def Get_def)

lemmas method_defs =
  AddParent_def Save_def GetParent_def GetTree_def SetTree_def eio_poll_def
  EIO_GetParent_def EIO_AfterGetParent_def CHECK_PROPERTY_def GET_SIGNATURE_PROPERTY_def
  Get_def arg_def GIT_SUCCESS_def Ref_wrap_def Unref_wrap_def eio_custom_def split_beta

theorem parent_count_locally_authoritative_witness:
  "count_published created
   \<and> fst (run demo_git
        [CallAddParent [JCommitObj 3], CallSave [], Assign PARENTCOUNT_PROPERTY (JInt32 9),
         CallAddParent [JString (replicate 40 (CHR ''b''))], CallAddParent [JInt32 1],
         CallGetParent [JInt32 0, JFunction 4], EioPoll] created) = 2
   \<and> Get PARENTCOUNT_PROPERTY (snd (run demo_git
        [CallAddParent [JCommitObj 3], CallSave [], Assign PARENTCOUNT_PROPERTY (JInt32 9),
         CallAddParent [JString (replicate 40 (CHR ''b''))], CallAddParent [JInt32 1],
         CallGetParent [JInt32 0, JFunction 4], EioPoll] created)) = JInt32 2
   \<and> sint (parentCount_f (this (snd (run demo_git
        [CallAddParent [JCommitObj 3], CallSave [], Assign PARENTCOUNT_PROPERTY (JInt32 9),
         CallAddParent [JString (replicate 40 (CHR ''b''))], CallAddParent [JInt32 1],
         CallGetParent [JInt32 0, JFunction 4], EioPoll] created)))) = 2"
proof -
  have p: "count_published created"
    by (simp add: count_published_def created_def fresh_def load_defs)
  have n: "fst (run demo_git
        [CallAddParent [JCommitObj 3], CallSave [], Assign PARENTCOUNT_PROPERTY (JInt32 9),
         CallAddParent [JString (replicate 40 (CHR ''b''))], CallAddParent [JInt32 1],
         CallGetParent [JInt32 0, JFunction 4], EioPoll] created) = 2"
    by (simp add: created_def fresh_def load_defs method_defs demo_git_def emit_def)
  from parent_count_locally_authoritative [OF p, of demo_git
        "[CallAddParent [JCommitObj 3], CallSave [], Assign PARENTCOUNT_PROPERTY (JInt32 9),
         CallAddParent [JString (replicate 40 (CHR ''b''))], CallAddParent [JInt32 1],
         CallGetParent [JInt32 0, JFunction 4], EioPoll]"] p n
  show ?thesis
    by (simp add: created_facts)
qed

subsection \<open>\<open>getParent\<close>\<close>

lemma GetParent_out_of_bounds:
  "sint (parentCount_f (this s)) \<le> sint i \<Longrightarrow>
   GetParent git (JInt32 i # rest) s = (Inl (Error ''Parent commit index is out of bounds.''), s)"
  by (simp add: GetParent_def arg_def)

lemma GetParent_bounds_iff:
  "fst (GetParent git (JInt32 i # rest) s) = Inl (Error ''Parent commit index is out of bounds.'')
   \<longleftrightarrow> sint (parentCount_f (this s)) \<le> sint i"
  by (simp add: GetParent_def arg_def Let_def split: js_value.splits option.splits)

lemma GetParent_inline:
  "sint i < sint (parentCount_f (this s)) \<Longrightarrow>
   GetParent git [JInt32 i] s =
     (let s3 = s\<lparr>trace := trace s @ [LockRepository,
                  Git (GitCommitParent (commit_f (this s)) i), UnlockRepository]\<rparr>
      in case git_commit_parent git (repo s) (commit_f (this s)) i of
           None \<Rightarrow> (Inl (Error ''Error getting parent.''), s3)
         | Some p \<Rightarrow> (Inr (JCommitObj p), emit (SyncRequestCommit p) s3))"
  by (simp add: GetParent_def arg_def Let_def lockRepository_def unlockRepository_def emit_def
      split: option.splits)

lemma GetParent_deferred:
  "sint i < sint (parentCount_f (this s)) \<Longrightarrow>
   GetParent git (JInt32 i # mid @ [JFunction cb]) s =
     (Inr Undefined,
      s\<lparr>this := (this s)\<lparr>refs_f := refs_f (this s) + 1\<rparr>,
        eio_queue := eio_queue s @ [\<lparr>callback = cb, index = i, parent = None\<rparr>],
        trace := trace s @ [Ref, EioCustom \<lparr>callback = cb, index = i, parent = None\<rparr>, EvRef]\<rparr>)"
  by (simp add: GetParent_def arg_def Let_def Ref_wrap_def eio_custom_def emit_def nth_append)

lemma eio_poll_one:
  "eio_queue s = request # rest \<Longrightarrow>
   eio_poll git s =
     s\<lparr>this := (this s)\<lparr>refs_f := refs_f (this s) - 1\<rparr>,
       eio_queue := rest,
       trace := trace s @ [LockRepository,
                 Git (GitCommitParent (commit_f (this s)) (index request)),
                 UnlockRepository, EvUnref, Unref] @
                (case git_commit_parent git (repo s) (commit_f (this s)) (index request) of
                   None \<Rightarrow> [TriggerCallback (callback request)
                               [JErrorObj (Error ''Couldn't get parent commit.''), Null],
                             Dispose (callback request)]
                 | Some p \<Rightarrow> [AsyncRequestCommit p (callback request)])\<rparr>"
  by (simp add: eio_poll_def EIO_GetParent_def EIO_AfterGetParent_def Let_def Unref_wrap_def
      lockRepository_def unlockRepository_def emit_def split: option.splits)

lemma deferred_pipeline:
  assumes "sint i < sint (parentCount_f (this s))" "eio_queue s = []"
  shows "eio_poll git (snd (GetParent git (JInt32 i # mid @ [JFunction cb]) s)) =
     s\<lparr>this := (this s)\<lparr>refs_f := refs_f (this s)\<rparr>,
       eio_queue := [],
       trace := trace s @ [Ref, EioCustom \<lparr>callback = cb, index = i, parent = None\<rparr>, EvRef,
                 LockRepository, Git (GitCommitParent (commit_f (this s)) i),
                 UnlockRepository, EvUnref, Unref] @
                (case git_commit_parent git (repo s) (commit_f (this s)) i of
                   None \<Rightarrow> [TriggerCallback cb
                               [JErrorObj (Error ''Couldn't get parent commit.''), Null],
                             Dispose cb]
                 | Some p \<Rightarrow> [AsyncRequestCommit p cb])\<rparr>"
  using assms
  by (simp add: GetParent_deferred
      eio_poll_one [where request = "\<lparr>callback = cb, index = i, parent = None\<rparr>" and rest = "[]"]
      split: option.splits)

lemma eio_poll_events:
  "eio_queue s = request # rest \<Longrightarrow>
   new_events s (eio_poll git s) =
     [LockRepository, Git (GitCommitParent (commit_f (this s)) (index request)),
      UnlockRepository, EvUnref, Unref] @
     (case git_commit_parent git (repo s) (commit_f (this s)) (index request) of
        None \<Rightarrow> [TriggerCallback (callback request)
                    [JErrorObj (Error ''Couldn't get parent commit.''), Null],
                  Dispose (callback request)]
      | Some p \<Rightarrow> [AsyncRequestCommit p (callback request)])
   \<and> eio_queue (eio_poll git s) = rest
   \<and> refs_f (this (eio_poll git s)) = refs_f (this s) - 1"
  by (simp add: eio_poll_one new_events_def)

lemma eio_turns_frame:
  "n \<le> length (eio_queue s) \<Longrightarrow>
   eio_queue (eio_turns git n s) = drop n (eio_queue s)
   \<and> repo (eio_turns git n s) = repo s
   \<and> commit_f (this (eio_turns git n s)) = commit_f (this s)
   \<and> refs_f (this (eio_turns git n s)) = refs_f (this s) - n"
proof (induction n arbitrary: s)
  case 0
  then show ?case by simp
next
  case (Suc n)
  then obtain request rest where q: "eio_queue s = request # rest"
    by (cases "eio_queue s") auto
  with Suc.prems have "n \<le> length (eio_queue (eio_poll git s))"
    by (simp add: eio_poll_one)
  from Suc.IH [OF this] q show ?case
    by (simp add: eio_poll_one)
qed

text \<open>
  A request that was accepted is the oldest of the queue once the requests that waited
  before it have had their turns; the repository and the handle are those of the call.
\<close>

lemma deferred_reached:
  assumes "sint i < sint (parentCount_f (this s))"
  shows "eio_queue (eio_turns git (length (eio_queue s))
            (snd (GetParent git (JInt32 i # mid @ [JFunction cb]) s)))
          = [\<lparr>callback = cb, index = i, parent = None\<rparr>]
   \<and> repo (eio_turns git (length (eio_queue s))
            (snd (GetParent git (JInt32 i # mid @ [JFunction cb]) s))) = repo s
   \<and> commit_f (this (eio_turns git (length (eio_queue s))
            (snd (GetParent git (JInt32 i # mid @ [JFunction cb]) s)))) = commit_f (this s)
   \<and> refs_f (this (eio_turns git (length (eio_queue s))
            (snd (GetParent git (JInt32 i # mid @ [JFunction cb]) s))))
        = refs_f (this s) + 1 - length (eio_queue s)"
  using eio_turns_frame [of "length (eio_queue s)"
      "snd (GetParent git (JInt32 i # mid @ [JFunction cb]) s)" git] assms
  by (simp add: GetParent_deferred)

lemma pending_facts:
  "eio_queue pending = [\<lparr>callback = 8, index = - 1, parent = None\<rparr>]"
  "refs_f (this pending) = 1"
  "parentCount_f (this pending) = 1"
  "commit_f (this pending) = 5"
  "repo pending = 0"
  "trace pending = [Ref, EioCustom \<lparr>callback = 8, index = - 1, parent = None\<rparr>, EvRef]"
  by (simp_all add: pending_def GetParent_deferred [where mid = "[]", simplified] loaded_facts)

text \<open>
  C10. With an integer as first argument, \<open>GetParent\<close> throws "Parent commit index is out
  of bounds." exactly when the index, as a signed number, is at least the count. So on a
  wrapper whose count is not negative a negative index passes the check, and
  \<open>git_commit_parent\<close> is called with that very index: by the method itself when no
  callback is given, by the worker function when one is, in the turn of libeio that
  follows the turns of the requests that waited before it (the next turn when none did).
\<close>

theorem GetParent_negative_index_reaches_backend:
  "(fst (GetParent git (JInt32 i # rest) s) = Inl (Error ''Parent commit index is out of bounds.'')
      \<longleftrightarrow> sint (parentCount_f (this s)) \<le> sint i)
   \<and> (sint i < 0 \<and> 0 \<le> sint (parentCount_f (this s)) \<longrightarrow>
        Git (GitCommitParent (commit_f (this s)) i)
          \<in> set (new_events s (snd (GetParent git [JInt32 i] s))))
   \<and> (sint i < 0 \<and> 0 \<le> sint (parentCount_f (this s)) \<and> eio_queue s = [] \<longrightarrow>
        Git (GitCommitParent (commit_f (this s)) i)
          \<in> set (new_events s
                (eio_poll git (snd (GetParent git (JInt32 i # mid @ [JFunction cb]) s)))))
   \<and> (sint i < 0 \<and> 0 \<le> sint (parentCount_f (this s)) \<longrightarrow>
        Git (GitCommitParent (commit_f (this s)) i)
          \<in> set (new_events
                (eio_turns git (length (eio_queue s))
                   (snd (GetParent git (JInt32 i # mid @ [JFunction cb]) s)))
                (eio_poll git (eio_turns git (length (eio_queue s))
                   (snd (GetParent git (JInt32 i # mid @ [JFunction cb]) s))))))"
proof (intro conjI impI)
  show "fst (GetParent git (JInt32 i # rest) s) = Inl (Error ''Parent commit index is out of bounds.'')
      \<longleftrightarrow> sint (parentCount_f (this s)) \<le> sint i"
    by (rule GetParent_bounds_iff)
next
  assume "sint i < 0 \<and> 0 \<le> sint (parentCount_f (this s))"
  then have "sint i < sint (parentCount_f (this s))" by simp
  then show "Git (GitCommitParent (commit_f (this s)) i)
          \<in> set (new_events s (snd (GetParent git [JInt32 i] s)))"
    by (simp add: GetParent_inline Let_def new_events_def split: option.splits)
next
  assume "sint i < 0 \<and> 0 \<le> sint (parentCount_f (this s)) \<and> eio_queue s = []"
  then have "sint i < sint (parentCount_f (this s))" and "eio_queue s = []" by simp_all
  then show "Git (GitCommitParent (commit_f (this s)) i)
          \<in> set (new_events s
                (eio_poll git (snd (GetParent git (JInt32 i # mid @ [JFunction cb]) s))))"
    by (simp add: deferred_pipeline new_events_def)
next
  assume "sint i < 0 \<and> 0 \<le> sint (parentCount_f (this s))"
  then have a: "sint i < sint (parentCount_f (this s))" by simp
  from deferred_reached [OF a, of git mid cb]
    eio_poll_events [where s = "eio_turns git (length (eio_queue s))
                   (snd (GetParent git (JInt32 i # mid @ [JFunction cb]) s))"
      and request = "\<lparr>callback = cb, index = i, parent = None\<rparr>" and rest = "[]" and git = git]
  show "Git (GitCommitParent (commit_f (this s)) i)
          \<in> set (new_events
                (eio_turns git (length (eio_queue s))
                   (snd (GetParent git (JInt32 i # mid @ [JFunction cb]) s)))
                (eio_poll git (eio_turns git (length (eio_queue s))
                   (snd (GetParent git (JInt32 i # mid @ [JFunction cb]) s)))))"
    by simp
qed

theorem GetParent_negative_index_reaches_backend_witness:
  "sint (- 1 :: 32 word) < 0 \<and> 0 \<le> sint (parentCount_f (this (loaded 0)))
   \<and> eio_queue (loaded 0) = []
   \<and> fst (GetParent demo_git [JInt32 (- 1)] (loaded 0))
       \<noteq> Inl (Error ''Parent commit index is out of bounds.'')
   \<and> Git (GitCommitParent 5 (- 1))
       \<in> set (new_events (loaded 0) (snd (GetParent demo_git [JInt32 (- 1)] (loaded 0))))
   \<and> Git (GitCommitParent 5 (- 1))
       \<in> set (new_events (loaded 0)
            (eio_poll demo_git (snd (GetParent demo_git [JInt32 (- 1), JFunction 9] (loaded 0)))))
   \<and> sint (- 2 :: 32 word) < 0 \<and> 0 \<le> sint (parentCount_f (this pending))
   \<and> Git (GitCommitParent 5 (- 2))
       \<in> set (new_events
            (eio_turns demo_git 1 (snd (GetParent demo_git [JInt32 (- 2), JFunction 9] pending)))
            (eio_poll demo_git
               (eio_turns demo_git 1
                  (snd (GetParent demo_git [JInt32 (- 2), JFunction 9] pending)))))"
  using GetParent_negative_index_reaches_backend
    [where s = "loaded 0" and git = demo_git and i = "- 1" and rest = "[]" and mid = "[]" and cb = 9]
    GetParent_negative_index_reaches_backend
    [where s = pending and git = demo_git and i = "- 2" and rest = "[]" and mid = "[]" and cb = 9]
  by (simp add: loaded_facts pending_facts)

text \<open>
  C6, as the claim states it, fails: a deferred \<open>getParent\<close> (a callback is given) for
  index 5 on a wrapper with one parent throws on the thread of the caller; nothing is
  queued, and a turn of libeio delivers nothing to the callback.
\<close>

theorem GetParent_deferred_out_of_bounds_counterexample:
  "fst (GetParent demo_git [JInt32 5, JFunction 9] (loaded 0))
     = Inl (Error ''Parent commit index is out of bounds.'')
   \<and> new_events (loaded 0)
       (eio_poll demo_git (snd (GetParent demo_git [JInt32 5, JFunction 9] (loaded 0)))) = []"
  by (simp add: GetParent_out_of_bounds loaded_facts eio_poll_def)

text \<open>
  C6, amended. An index at or above the count is refused by \<open>GetParent\<close> itself, with or
  without a callback: the exception is thrown on the thread of the caller and the state
  is untouched. An index that passes this check and for which libgit2 has no parent is
  reported once. Without a callback, \<open>GetParent\<close> throws "Error getting parent." after one
  locked call of \<open>git_commit_parent\<close>. With a callback, \<open>GetParent\<close> returns \<open>Undefined\<close>
  and puts the request at the end of the queue, whatever waits there; once the older
  requests have had their turns the request is the only one left, and its turn makes one
  locked call of \<open>git_commit_parent\<close>, then triggers the callback once with an error
  object and \<open>Null\<close>, and leaves the queue empty. The same holds for the turn of any
  request in any state: if libgit2 has no parent for its index, its callback gets the
  error. The worker function returns 0 in every case.
\<close>

theorem GetParent_missing_parent_reported:
  "(sint (parentCount_f (this s)) \<le> sint i \<longrightarrow>
      GetParent git (JInt32 i # rest) s
        = (Inl (Error ''Parent commit index is out of bounds.''), s))
   \<and> (sint i < sint (parentCount_f (this s))
      \<and> git_commit_parent git (repo s) (commit_f (this s)) i = None \<longrightarrow>
        fst (GetParent git [JInt32 i] s) = Inl (Error ''Error getting parent.'')
        \<and> new_events s (snd (GetParent git [JInt32 i] s))
            = [LockRepository, Git (GitCommitParent (commit_f (this s)) i), UnlockRepository])
   \<and> (sint i < sint (parentCount_f (this s)) \<longrightarrow>
        fst (GetParent git (JInt32 i # mid @ [JFunction cb]) s) = Inr Undefined
        \<and> new_events s (snd (GetParent git (JInt32 i # mid @ [JFunction cb]) s))
            = [Ref, EioCustom \<lparr>callback = cb, index = i, parent = None\<rparr>, EvRef]
        \<and> eio_queue (snd (GetParent git (JInt32 i # mid @ [JFunction cb]) s))
            = eio_queue s @ [\<lparr>callback = cb, index = i, parent = None\<rparr>])
   \<and> (sint i < sint (parentCount_f (this s))
      \<and> git_commit_parent git (repo s) (commit_f (this s)) i = None \<longrightarrow>
        eio_queue (eio_turns git (length (eio_queue s))
                     (snd (GetParent git (JInt32 i # mid @ [JFunction cb]) s)))
          = [\<lparr>callback = cb, index = i, parent = None\<rparr>]
        \<and> new_events
              (eio_turns git (length (eio_queue s))
                 (snd (GetParent git (JInt32 i # mid @ [JFunction cb]) s)))
              (eio_poll git (eio_turns git (length (eio_queue s))
                 (snd (GetParent git (JInt32 i # mid @ [JFunction cb]) s))))
          = [LockRepository, Git (GitCommitParent (commit_f (this s)) i), UnlockRepository,
             EvUnref, Unref,
             TriggerCallback cb [JErrorObj (Error ''Couldn't get parent commit.''), Null],
             Dispose cb]
        \<and> eio_queue (eio_poll git (eio_turns git (length (eio_queue s))
                 (snd (GetParent git (JInt32 i # mid @ [JFunction cb]) s)))) = [])
   \<and> (eio_queue s' = request # others
      \<and> git_commit_parent git (repo s') (commit_f (this s')) (index request) = None \<longrightarrow>
        new_events s' (eio_poll git s')
          = [LockRepository, Git (GitCommitParent (commit_f (this s')) (index request)),
             UnlockRepository, EvUnref, Unref,
             TriggerCallback (callback request)
               [JErrorObj (Error ''Couldn't get parent commit.''), Null],
             Dispose (callback request)]
        \<and> eio_queue (eio_poll git s') = others)
   \<and> fst (EIO_GetParent git reqData s') = 0"
proof (intro conjI impI)
  assume "sint (parentCount_f (this s)) \<le> sint i"
  then show "GetParent git (JInt32 i # rest) s
        = (Inl (Error ''Parent commit index is out of bounds.''), s)"
    by (rule GetParent_out_of_bounds)
next
  assume a: "sint i < sint (parentCount_f (this s))
      \<and> git_commit_parent git (repo s) (commit_f (this s)) i = None"
  then show "fst (GetParent git [JInt32 i] s) = Inl (Error ''Error getting parent.'')"
    by (simp add: GetParent_inline)
  from a show "new_events s (snd (GetParent git [JInt32 i] s))
            = [LockRepository, Git (GitCommitParent (commit_f (this s)) i), UnlockRepository]"
    by (simp add: GetParent_inline new_events_def)
next
  assume a: "sint i < sint (parentCount_f (this s))"
  then show "fst (GetParent git (JInt32 i # mid @ [JFunction cb]) s) = Inr Undefined"
    by (simp add: GetParent_deferred)
  from a show "new_events s (snd (GetParent git (JInt32 i # mid @ [JFunction cb]) s))
            = [Ref, EioCustom \<lparr>callback = cb, index = i, parent = None\<rparr>, EvRef]"
    by (simp add: GetParent_deferred new_events_def)
  from a show "eio_queue (snd (GetParent git (JInt32 i # mid @ [JFunction cb]) s))
            = eio_queue s @ [\<lparr>callback = cb, index = i, parent = None\<rparr>]"
    by (simp add: GetParent_deferred)
next
  assume "sint i < sint (parentCount_f (this s))
      \<and> git_commit_parent git (repo s) (commit_f (this s)) i = None"
  then have a: "sint i < sint (parentCount_f (this s))"
    and n: "git_commit_parent git (repo s) (commit_f (this s)) i = None"
    by simp_all
  note r = deferred_reached [OF a, of git mid cb]
  note e = eio_poll_events [where s = "eio_turns git (length (eio_queue s))
                   (snd (GetParent git (JInt32 i # mid @ [JFunction cb]) s))"
      and request = "\<lparr>callback = cb, index = i, parent = None\<rparr>" and rest = "[]" and git = git]
  from r show "eio_queue (eio_turns git (length (eio_queue s))
                     (snd (GetParent git (JInt32 i # mid @ [JFunction cb]) s)))
          = [\<lparr>callback = cb, index = i, parent = None\<rparr>]"
    by simp
  from r e n show "new_events
              (eio_turns git (length (eio_queue s))
                 (snd (GetParent git (JInt32 i # mid @ [JFunction cb]) s)))
              (eio_poll git (eio_turns git (length (eio_queue s))
                 (snd (GetParent git (JInt32 i # mid @ [JFunction cb]) s))))
          = [LockRepository, Git (GitCommitParent (commit_f (this s)) i), UnlockRepository,
             EvUnref, Unref,
             TriggerCallback cb [JErrorObj (Error ''Couldn't get parent commit.''), Null],
             Dispose cb]"
    by simp
  from r e show "eio_queue (eio_poll git (eio_turns git (length (eio_queue s))
                 (snd (GetParent git (JInt32 i # mid @ [JFunction cb]) s)))) = []"
    by simp
next
  assume a: "eio_queue s' = request # others
      \<and> git_commit_parent git (repo s') (commit_f (this s')) (index request) = None"
  with eio_poll_events [of s' request others git]
  show "new_events s' (eio_poll git s')
          = [LockRepository, Git (GitCommitParent (commit_f (this s')) (index request)),
             UnlockRepository, EvUnref, Unref,
             TriggerCallback (callback request)
               [JErrorObj (Error ''Couldn't get parent commit.''), Null],
             Dispose (callback request)]"
    by simp
  from a eio_poll_events [of s' request others git]
  show "eio_queue (eio_poll git s') = others"
    by simp
next
  show "fst (EIO_GetParent git reqData s') = 0"
    by (simp add: EIO_GetParent_def Let_def)
qed

theorem GetParent_missing_parent_reported_witness:
  "GetParent demo_git [JInt32 5, JFunction 9] (loaded 0)
     = (Inl (Error ''Parent commit index is out of bounds.''), loaded 0)
   \<and> sint (- 2 :: 32 word) < sint (parentCount_f (this pending))
   \<and> git_commit_parent demo_git (repo pending) (commit_f (this pending)) (- 2) = None
   \<and> eio_queue pending = [\<lparr>callback = 8, index = - 1, parent = None\<rparr>]
   \<and> git_commit_parent demo_git (repo pending) (commit_f (this pending)) (- 1) = None
   \<and> fst (GetParent demo_git [JInt32 (- 2)] pending) = Inl (Error ''Error getting parent.'')
   \<and> new_events pending (snd (GetParent demo_git [JInt32 (- 2)] pending))
       = [LockRepository, Git (GitCommitParent 5 (- 2)), UnlockRepository]
   \<and> fst (GetParent demo_git [JInt32 (- 2), JFunction 9] pending) = Inr Undefined
   \<and> eio_queue (snd (GetParent demo_git [JInt32 (- 2), JFunction 9] pending))
       = [\<lparr>callback = 8, index = - 1, parent = None\<rparr>,
          \<lparr>callback = 9, index = - 2, parent = None\<rparr>]
   \<and> new_events
         (eio_turns demo_git 1 (snd (GetParent demo_git [JInt32 (- 2), JFunction 9] pending)))
         (eio_poll demo_git
            (eio_turns demo_git 1 (snd (GetParent demo_git [JInt32 (- 2), JFunction 9] pending))))
       = [LockRepository, Git (GitCommitParent 5 (- 2)), UnlockRepository, EvUnref, Unref,
          TriggerCallback 9 [JErrorObj (Error ''Couldn't get parent commit.''), Null],
          Dispose 9]
   \<and> new_events pending (eio_poll demo_git pending)
       = [LockRepository, Git (GitCommitParent 5 (- 1)), UnlockRepository, EvUnref, Unref,
          TriggerCallback 8 [JErrorObj (Error ''Couldn't get parent commit.''), Null],
          Dispose 8]"
  using GetParent_missing_parent_reported
    [where s = "loaded 0" and git = demo_git and i = 5 and rest = "[JFunction 9]"
       and mid = "[]" and cb = 9 and s' = pending
       and request = "\<lparr>callback = 8, index = - 1, parent = None\<rparr>" and others = "[]"
       and reqData = "\<lparr>callback = 8, index = - 1, parent = None\<rparr>"]
    GetParent_missing_parent_reported
    [where s = pending and git = demo_git and i = "- 2" and rest = "[]"
       and mid = "[]" and cb = 9 and s' = pending
       and request = "\<lparr>callback = 8, index = - 1, parent = None\<rparr>" and others = "[]"
       and reqData = "\<lparr>callback = 8, index = - 1, parent = None\<rparr>"]
  by (simp add: loaded_facts pending_facts demo_git_def)

subsection \<open>The reference held for a deferred request\<close>

text \<open>
  C7, as the claim states it, fails: in the trace of a deferred \<open>getParent\<close> for the one
  parent of a loaded commit, \<open>Unref\<close> comes before the parent is handed on for delivery
  to the callback, not after.
\<close>

theorem GetParent_unref_before_delivery_counterexample:
  "new_events (loaded 0)
     (eio_poll demo_git (snd (GetParent demo_git [JInt32 0, JFunction 9] (loaded 0))))
     = [Ref, EioCustom \<lparr>callback = 9, index = 0, parent = None\<rparr>, EvRef,
        LockRepository, Git (GitCommitParent 5 0), UnlockRepository,
        EvUnref, Unref, AsyncRequestCommit 11 9]
   \<and> \<not> unref_after_delivery False (new_events (loaded 0)
         (eio_poll demo_git (snd (GetParent demo_git [JInt32 0, JFunction 9] (loaded 0)))))"
proof -
  have "new_events (loaded 0)
     (eio_poll demo_git (snd (GetParent demo_git [JInt32 0, JFunction 9] (loaded 0))))
     = [Ref, EioCustom \<lparr>callback = 9, index = 0, parent = None\<rparr>, EvRef,
        LockRepository, Git (GitCommitParent 5 0), UnlockRepository,
        EvUnref, Unref, AsyncRequestCommit 11 9]"
    using deferred_pipeline [where s = "loaded 0" and git = demo_git and i = 0 and mid = "[]" and cb = 9]
    by (simp add: loaded_facts demo_git_def new_events_def)
  then show ?thesis by simp
qed

text \<open>
  C7, amended. A deferred \<open>getParent\<close> that is accepted (integer index below the count,
  callback as last argument) takes one reference, before it puts the request at the end
  of the queue, whatever waits there. The worker function, for any request in any state,
  brackets its one call with the lock and leaves the wrapper alone. The completion
  function, for any request in any state, gives one reference back as its first step on
  the wrapper, before the callback is triggered or the parent is handed to the factory.
  Once the older requests have had their turns the request is the only one left, and its
  turn is: the locked call of the worker, then \<open>Unref\<close>, then the delivery. If every
  request that waited held its reference, the count is still positive when that turn
  begins, and after it the count is the one before the call less the references given
  back for the older requests.
\<close>

theorem GetParent_deferred_reference_held:
  "sint i < sint (parentCount_f (this s)) \<Longrightarrow>
   new_events s (snd (GetParent git (JInt32 i # mid @ [JFunction cb]) s))
     = [Ref, EioCustom \<lparr>callback = cb, index = i, parent = None\<rparr>, EvRef]
   \<and> refs_f (this (snd (GetParent git (JInt32 i # mid @ [JFunction cb]) s))) = refs_f (this s) + 1
   \<and> eio_queue (snd (GetParent git (JInt32 i # mid @ [JFunction cb]) s))
     = eio_queue s @ [\<lparr>callback = cb, index = i, parent = None\<rparr>]
   \<and> this (snd (snd (EIO_GetParent git reqData s'))) = this s'
   \<and> new_events s' (snd (snd (EIO_GetParent git reqData s')))
     = [LockRepository, Git (GitCommitParent (commit_f (this s')) (index reqData)),
        UnlockRepository]
   \<and> new_events s' (snd (EIO_AfterGetParent reqData s'))
     = [EvUnref, Unref] @
       (case parent reqData of
          None \<Rightarrow> [TriggerCallback (callback reqData)
                      [JErrorObj (Error ''Couldn't get parent commit.''), Null],
                    Dispose (callback reqData)]
        | Some p \<Rightarrow> [AsyncRequestCommit p (callback reqData)])
   \<and> refs_f (this (snd (EIO_AfterGetParent reqData s'))) = refs_f (this s') - 1
   \<and> eio_queue (eio_turns git (length (eio_queue s))
        (snd (GetParent git (JInt32 i # mid @ [JFunction cb]) s)))
     = [\<lparr>callback = cb, index = i, parent = None\<rparr>]
   \<and> refs_f (this (eio_turns git (length (eio_queue s))
        (snd (GetParent git (JInt32 i # mid @ [JFunction cb]) s))))
     = refs_f (this s) + 1 - length (eio_queue s)
   \<and> new_events
        (eio_turns git (length (eio_queue s))
           (snd (GetParent git (JInt32 i # mid @ [JFunction cb]) s)))
        (eio_poll git (eio_turns git (length (eio_queue s))
           (snd (GetParent git (JInt32 i # mid @ [JFunction cb]) s))))
     = [LockRepository, Git (GitCommitParent (commit_f (this s)) i), UnlockRepository,
        EvUnref, Unref] @
       (case git_commit_parent git (repo s) (commit_f (this s)) i of
          None \<Rightarrow> [TriggerCallback cb [JErrorObj (Error ''Couldn't get parent commit.''), Null],
                    Dispose cb]
        | Some p \<Rightarrow> [AsyncRequestCommit p cb])
   \<and> refs_f (this (eio_poll git (eio_turns git (length (eio_queue s))
        (snd (GetParent git (JInt32 i # mid @ [JFunction cb]) s)))))
     = refs_f (this (eio_turns git (length (eio_queue s))
        (snd (GetParent git (JInt32 i # mid @ [JFunction cb]) s)))) - 1
   \<and> (length (eio_queue s) \<le> refs_f (this s) \<longrightarrow>
        0 < refs_f (this (eio_turns git (length (eio_queue s))
              (snd (GetParent git (JInt32 i # mid @ [JFunction cb]) s))))
        \<and> refs_f (this (eio_poll git (eio_turns git (length (eio_queue s))
              (snd (GetParent git (JInt32 i # mid @ [JFunction cb]) s)))))
            = refs_f (this s) - length (eio_queue s))"
proof (intro conjI impI)
  assume a: "sint i < sint (parentCount_f (this s))"
  note r = deferred_reached [OF a, of git mid cb]
  note e = eio_poll_events [where s = "eio_turns git (length (eio_queue s))
                   (snd (GetParent git (JInt32 i # mid @ [JFunction cb]) s))"
      and request = "\<lparr>callback = cb, index = i, parent = None\<rparr>" and rest = "[]" and git = git]
  show "new_events s (snd (GetParent git (JInt32 i # mid @ [JFunction cb]) s))
     = [Ref, EioCustom \<lparr>callback = cb, index = i, parent = None\<rparr>, EvRef]"
    using a by (simp add: GetParent_deferred new_events_def)
  show "refs_f (this (snd (GetParent git (JInt32 i # mid @ [JFunction cb]) s))) = refs_f (this s) + 1"
    using a by (simp add: GetParent_deferred)
  show "eio_queue (snd (GetParent git (JInt32 i # mid @ [JFunction cb]) s))
     = eio_queue s @ [\<lparr>callback = cb, index = i, parent = None\<rparr>]"
    using a by (simp add: GetParent_deferred)
  show "this (snd (snd (EIO_GetParent git reqData s'))) = this s'"
    by (simp add: EIO_GetParent_def Let_def lockRepository_def unlockRepository_def)
  show "new_events s' (snd (snd (EIO_GetParent git reqData s')))
     = [LockRepository, Git (GitCommitParent (commit_f (this s')) (index reqData)),
        UnlockRepository]"
    by (simp add: EIO_GetParent_def Let_def lockRepository_def unlockRepository_def new_events_def)
  show "new_events s' (snd (EIO_AfterGetParent reqData s'))
     = [EvUnref, Unref] @
       (case parent reqData of
          None \<Rightarrow> [TriggerCallback (callback reqData)
                      [JErrorObj (Error ''Couldn't get parent commit.''), Null],
                    Dispose (callback reqData)]
        | Some p \<Rightarrow> [AsyncRequestCommit p (callback reqData)])"
    by (simp add: EIO_AfterGetParent_def Let_def Unref_wrap_def new_events_def
        split: option.splits)
  show "refs_f (this (snd (EIO_AfterGetParent reqData s'))) = refs_f (this s') - 1"
    by (simp add: EIO_AfterGetParent_def Let_def Unref_wrap_def split: option.splits)
  show "eio_queue (eio_turns git (length (eio_queue s))
        (snd (GetParent git (JInt32 i # mid @ [JFunction cb]) s)))
     = [\<lparr>callback = cb, index = i, parent = None\<rparr>]"
    using r by simp
  show "refs_f (this (eio_turns git (length (eio_queue s))
        (snd (GetParent git (JInt32 i # mid @ [JFunction cb]) s))))
     = refs_f (this s) + 1 - length (eio_queue s)"
    using r by simp
  show "new_events
        (eio_turns git (length (eio_queue s))
           (snd (GetParent git (JInt32 i # mid @ [JFunction cb]) s)))
        (eio_poll git (eio_turns git (length (eio_queue s))
           (snd (GetParent git (JInt32 i # mid @ [JFunction cb]) s))))
     = [LockRepository, Git (GitCommitParent (commit_f (this s)) i), UnlockRepository,
        EvUnref, Unref] @
       (case git_commit_parent git (repo s) (commit_f (this s)) i of
          None \<Rightarrow> [TriggerCallback cb [JErrorObj (Error ''Couldn't get parent commit.''), Null],
                    Dispose cb]
        | Some p \<Rightarrow> [AsyncRequestCommit p cb])"
    using r e by (simp split: option.splits)
  show "refs_f (this (eio_poll git (eio_turns git (length (eio_queue s))
        (snd (GetParent git (JInt32 i # mid @ [JFunction cb]) s)))))
     = refs_f (this (eio_turns git (length (eio_queue s))
        (snd (GetParent git (JInt32 i # mid @ [JFunction cb]) s)))) - 1"
    using r e by simp
  assume q: "length (eio_queue s) \<le> refs_f (this s)"
  show "0 < refs_f (this (eio_turns git (length (eio_queue s))
              (snd (GetParent git (JInt32 i # mid @ [JFunction cb]) s))))"
    using r q by simp
  show "refs_f (this (eio_poll git (eio_turns git (length (eio_queue s))
              (snd (GetParent git (JInt32 i # mid @ [JFunction cb]) s)))))
            = refs_f (this s) - length (eio_queue s)"
    using r e q by simp
qed

theorem GetParent_deferred_reference_held_witness:
  "sint (0 :: 32 word) < sint (parentCount_f (this pending))
   \<and> eio_queue pending = [\<lparr>callback = 8, index = - 1, parent = None\<rparr>]
   \<and> length (eio_queue pending) \<le> refs_f (this pending)
   \<and> new_events pending (snd (GetParent demo_git [JInt32 0, JFunction 9] pending))
       = [Ref, EioCustom \<lparr>callback = 9, index = 0, parent = None\<rparr>, EvRef]
   \<and> refs_f (this (snd (GetParent demo_git [JInt32 0, JFunction 9] pending))) = 2
   \<and> refs_f (this (eio_turns demo_git 1
         (snd (GetParent demo_git [JInt32 0, JFunction 9] pending)))) = 1
   \<and> new_events
         (eio_turns demo_git 1 (snd (GetParent demo_git [JInt32 0, JFunction 9] pending)))
         (eio_poll demo_git
            (eio_turns demo_git 1 (snd (GetParent demo_git [JInt32 0, JFunction 9] pending))))
       = [LockRepository, Git (GitCommitParent 5 0), UnlockRepository, EvUnref, Unref,
          AsyncRequestCommit 11 9]
   \<and> refs_f (this (eio_poll demo_git
         (eio_turns demo_git 1
            (snd (GetParent demo_git [JInt32 0, JFunction 9] pending))))) = 0"
  using GetParent_deferred_reference_held
    [where s = pending and git = demo_git and i = 0 and mid = "[]" and cb = 9
       and s' = pending and reqData = "\<lparr>callback = 8, index = - 1, parent = None\<rparr>"]
  by (simp add: pending_facts demo_git_def)

subsection \<open>The load step\<close>

lemma loadInitData_trace:
  "trace (snd (loadInitData git s)) = trace s @
     [LockRepository,
      Git (GitCommitId (commit_f (this s))),
      Git (GitOidFmt (git_commit_id git (repo s) (commit_f (this s)))),
      Git (GitCommitMessage (commit_f (this s))),
      Git (GitCommitAuthor (commit_f (this s))),
      Git (GitSignatureDup (git_commit_author git (repo s) (commit_f (this s)))),
      Git (GitCommitCommitter (commit_f (this s))),
      Git (GitSignatureDup (git_commit_committer git (repo s) (commit_f (this s)))),
      Git (GitCommitParentcount (commit_f (this s))),
      UnlockRepository]"
  by (simp add: loadInitData_def Let_def lockRepository_def unlockRepository_def)

lemma loadInitData_data:
  "fst (loadInitData git s) =
     \<lparr>cd_id = git_oid_fmt git (git_commit_id git (repo s) (commit_f (this s))),
      cd_message = c_str (git_commit_message git (repo s) (commit_f (this s))),
      cd_author = git_commit_author git (repo s) (commit_f (this s)),
      cd_committer = git_commit_committer git (repo s) (commit_f (this s)),
      cd_parentCount = git_commit_parentcount git (repo s) (commit_f (this s))\<rparr>"
  by (simp add: loadInitData_def Let_def lockRepository_def unlockRepository_def)

lemma loadInitData_this:
  "this (snd (loadInitData git s)) = this s \<and> repo (snd (loadInitData git s)) = repo s"
  by (simp add: loadInitData_def Let_def lockRepository_def unlockRepository_def)

lemma Set_trace:
  "\<exists>es. trace (Set p v ro s) = trace s @ es \<and> filter locked_work es = []"
  by (simp add: Set_def ForceSet_def split: option.splits prod.splits bool.splits)

lemma New_props:
  "New parentCount0 [JExternal theCommit] s = (r, s') \<Longrightarrow>
   r = Inr (JCommitObj theCommit) \<and> commit_f (this s') = theCommit
   \<and> props (this s') = Map.empty \<and> refs_f (this s') = 0"
  by (auto simp: New_def arg_def)

lemma quiet_step_iff:
  "quiet_step s s' \<longleftrightarrow> (\<exists>es. trace s' = trace s @ es \<and> filter locked_work es = [])"
proof
  assume "quiet_step s s'"
  then have "trace s' = trace s @ new_events s s'" and "filter locked_work (new_events s s') = []"
    unfolding quiet_step_def new_events_def
    by (metis append_take_drop_id, simp)
  then show "\<exists>es. trace s' = trace s @ es \<and> filter locked_work es = []"
    by blast
next
  assume "\<exists>es. trace s' = trace s @ es \<and> filter locked_work es = []"
  then show "quiet_step s s'"
    by (auto simp: quiet_step_def new_events_def)
qed

lemma quiet_refl: "quiet_step s s"
  by (simp add: quiet_step_def)

lemma quiet_emit: "quiet_step s s1 \<Longrightarrow> \<not> locked_work e \<Longrightarrow> quiet_step s (emit e s1)"
  by (auto simp: quiet_step_iff)

lemma quiet_this: "quiet_step s s1 \<Longrightarrow> quiet_step s (s1\<lparr>this := c\<rparr>)"
  by (simp add: quiet_step_iff)

lemma quiet_Set: "quiet_step s s1 \<Longrightarrow> quiet_step s (Set p v ro s1)"
  using Set_trace [of p v ro s1] by (auto simp: quiet_step_iff)

lemma processInitData_quiet: "quiet_step s (processInitData data s)"
  by (cases data)
    (simp_all add: processInitData_def Let_def quiet_refl quiet_emit quiet_this quiet_Set)

lemma processInitData_fresh:
  "props (this s) = Map.empty \<Longrightarrow>
   processInitData (Some d) s =
     s\<lparr>this := (this s)\<lparr>parentCount_f := cd_parentCount d,
          props := [ID_PROPERTY \<mapsto> (JString (take 40 (cd_id d)), True),
                    MESSAGE_PROPERTY \<mapsto> (JString (c_str (cd_message d)), False),
                    AUTHOR_PROPERTY \<mapsto> (CREATE_PERSON_OBJ (cd_author d), False),
                    COMMITTER_PROPERTY \<mapsto> (CREATE_PERSON_OBJ (cd_committer d), False),
                    PARENTCOUNT_PROPERTY \<mapsto> (JInt32 (cd_parentCount d), True)]\<rparr>,
        trace := trace s @
          [JsSet ID_PROPERTY (JString (take 40 (cd_id d))),
           JsSet MESSAGE_PROPERTY (JString (c_str (cd_message d))),
           JsSet AUTHOR_PROPERTY (CREATE_PERSON_OBJ (cd_author d)),
           JsSet COMMITTER_PROPERTY (CREATE_PERSON_OBJ (cd_committer d)),
           JsSet PARENTCOUNT_PROPERTY (JInt32 (cd_parentCount d)),
           Git (GitSignatureFree (cd_author d)),
           Git (GitSignatureFree (cd_committer d))]\<rparr>"
  by (simp add: load_defs emit_def)

text \<open>
  C8. \<open>loadInitData\<close> takes the lock once, reads the id, the message, the author, the
  committer and the parent count of the commit, releases the lock, and returns the
  copies; it changes nothing of the wrapper. \<open>processInitData\<close>, whatever it is given,
  adds no event that takes or releases the lock or touches the repository. On a new
  object the whole load step therefore is one locked section of reads followed by the
  five publications and the release of the two copied signatures, a trace that keeps the
  lock discipline; and after it the wrapper holds what was read: the five properties of
  the JavaScript object are the id (read-only), the message, the author, the committer
  and the parent count (read-only) of the commit, and \<open>parentCount_\<close> is that count.
\<close>

theorem load_single_locked_section:
  "new_events s (snd (loadInitData git s)) =
     [LockRepository,
      Git (GitCommitId (commit_f (this s))),
      Git (GitOidFmt (git_commit_id git (repo s) (commit_f (this s)))),
      Git (GitCommitMessage (commit_f (this s))),
      Git (GitCommitAuthor (commit_f (this s))),
      Git (GitSignatureDup (git_commit_author git (repo s) (commit_f (this s)))),
      Git (GitCommitCommitter (commit_f (this s))),
      Git (GitSignatureDup (git_commit_committer git (repo s) (commit_f (this s)))),
      Git (GitCommitParentcount (commit_f (this s))),
      UnlockRepository]
   \<and> this (snd (loadInitData git s)) = this s
   \<and> fst (loadInitData git s) =
     \<lparr>cd_id = git_oid_fmt git (git_commit_id git (repo s) (commit_f (this s))),
      cd_message = c_str (git_commit_message git (repo s) (commit_f (this s))),
      cd_author = git_commit_author git (repo s) (commit_f (this s)),
      cd_committer = git_commit_committer git (repo s) (commit_f (this s)),
      cd_parentCount = git_commit_parentcount git (repo s) (commit_f (this s))\<rparr>
   \<and> filter locked_work (new_events s' (processInitData data s')) = []
   \<and> (props (this s) = Map.empty \<longrightarrow>
        new_events s (load git s) =
          [LockRepository,
           Git (GitCommitId (commit_f (this s))),
           Git (GitOidFmt (git_commit_id git (repo s) (commit_f (this s)))),
           Git (GitCommitMessage (commit_f (this s))),
           Git (GitCommitAuthor (commit_f (this s))),
           Git (GitSignatureDup (git_commit_author git (repo s) (commit_f (this s)))),
           Git (GitCommitCommitter (commit_f (this s))),
           Git (GitSignatureDup (git_commit_committer git (repo s) (commit_f (this s)))),
           Git (GitCommitParentcount (commit_f (this s))),
           UnlockRepository,
           JsSet ID_PROPERTY
             (JString (take 40 (git_oid_fmt git (git_commit_id git (repo s) (commit_f (this s)))))),
           JsSet MESSAGE_PROPERTY
             (JString (c_str (git_commit_message git (repo s) (commit_f (this s))))),
           JsSet AUTHOR_PROPERTY
             (CREATE_PERSON_OBJ (git_commit_author git (repo s) (commit_f (this s)))),
           JsSet COMMITTER_PROPERTY
             (CREATE_PERSON_OBJ (git_commit_committer git (repo s) (commit_f (this s)))),
           JsSet PARENTCOUNT_PROPERTY
             (JInt32 (git_commit_parentcount git (repo s) (commit_f (this s)))),
           Git (GitSignatureFree (git_commit_author git (repo s) (commit_f (this s)))),
           Git (GitSignatureFree (git_commit_committer git (repo s) (commit_f (this s))))]
        \<and> lock_ok False (new_events s (load git s))
        \<and> parentCount_f (this (load git s))
            = git_commit_parentcount git (repo s) (commit_f (this s))
        \<and> this (load git s) =
            (this s)\<lparr>parentCount_f := git_commit_parentcount git (repo s) (commit_f (this s)),
              props :=
                [ID_PROPERTY \<mapsto>
                   (JString (take 40 (git_oid_fmt git (git_commit_id git (repo s) (commit_f (this s))))),
                    True),
                 MESSAGE_PROPERTY \<mapsto>
                   (JString (c_str (git_commit_message git (repo s) (commit_f (this s)))), False),
                 AUTHOR_PROPERTY \<mapsto>
                   (CREATE_PERSON_OBJ (git_commit_author git (repo s) (commit_f (this s))), False),
                 COMMITTER_PROPERTY \<mapsto>
                   (CREATE_PERSON_OBJ (git_commit_committer git (repo s) (commit_f (this s))), False),
                 PARENTCOUNT_PROPERTY \<mapsto>
                   (JInt32 (git_commit_parentcount git (repo s) (commit_f (this s))), True)]\<rparr>)"
proof (intro conjI impI)
  show "new_events s (snd (loadInitData git s)) =
     [LockRepository,
      Git (GitCommitId (commit_f (this s))),
      Git (GitOidFmt (git_commit_id git (repo s) (commit_f (this s)))),
      Git (GitCommitMessage (commit_f (this s))),
      Git (GitCommitAuthor (commit_f (this s))),
      Git (GitSignatureDup (git_commit_author git (repo s) (commit_f (this s)))),
      Git (GitCommitCommitter (commit_f (this s))),
      Git (GitSignatureDup (git_commit_committer git (repo s) (commit_f (this s)))),
      Git (GitCommitParentcount (commit_f (this s))),
      UnlockRepository]"
    by (simp add: loadInitData_trace new_events_def)
  show "this (snd (loadInitData git s)) = this s"
    by (simp add: loadInitData_this)
  show "fst (loadInitData git s) =
     \<lparr>cd_id = git_oid_fmt git (git_commit_id git (repo s) (commit_f (this s))),
      cd_message = c_str (git_commit_message git (repo s) (commit_f (this s))),
      cd_author = git_commit_author git (repo s) (commit_f (this s)),
      cd_committer = git_commit_committer git (repo s) (commit_f (this s)),
      cd_parentCount = git_commit_parentcount git (repo s) (commit_f (this s))\<rparr>"
    by (rule loadInitData_data)
  show "filter locked_work (new_events s' (processInitData data s')) = []"
    using processInitData_quiet [of s' data] by (simp add: quiet_step_def)
next
  assume fresh: "props (this s) = Map.empty"
  have l: "load git s = processInitData (Some (fst (loadInitData git s))) (snd (loadInitData git s))"
    by (simp add: load_def split_beta)
  have p: "props (this (snd (loadInitData git s))) = Map.empty"
    using fresh by (simp add: loadInitData_this)
  have tr: "trace (load git s) = trace s @
          [LockRepository,
           Git (GitCommitId (commit_f (this s))),
           Git (GitOidFmt (git_commit_id git (repo s) (commit_f (this s)))),
           Git (GitCommitMessage (commit_f (this s))),
           Git (GitCommitAuthor (commit_f (this s))),
           Git (GitSignatureDup (git_commit_author git (repo s) (commit_f (this s)))),
           Git (GitCommitCommitter (commit_f (this s))),
           Git (GitSignatureDup (git_commit_committer git (repo s) (commit_f (this s)))),
           Git (GitCommitParentcount (commit_f (this s))),
           UnlockRepository,
           JsSet ID_PROPERTY
             (JString (take 40 (git_oid_fmt git (git_commit_id git (repo s) (commit_f (this s)))))),
           JsSet MESSAGE_PROPERTY
             (JString (c_str (git_commit_message git (repo s) (commit_f (this s))))),
           JsSet AUTHOR_PROPERTY
             (CREATE_PERSON_OBJ (git_commit_author git (repo s) (commit_f (this s)))),
           JsSet COMMITTER_PROPERTY
             (CREATE_PERSON_OBJ (git_commit_committer git (repo s) (commit_f (this s)))),
           JsSet PARENTCOUNT_PROPERTY
             (JInt32 (git_commit_parentcount git (repo s) (commit_f (this s)))),
           Git (GitSignatureFree (git_commit_author git (repo s) (commit_f (this s)))),
           Git (GitSignatureFree (git_commit_committer git (repo s) (commit_f (this s))))]"
    by (simp add: l processInitData_fresh [OF p] loadInitData_trace loadInitData_data)
  show "new_events s (load git s) =
          [LockRepository,
           Git (GitCommitId (commit_f (this s))),
           Git (GitOidFmt (git_commit_id git (repo s) (commit_f (this s)))),
           Git (GitCommitMessage (commit_f (this s))),
           Git (GitCommitAuthor (commit_f (this s))),
           Git (GitSignatureDup (git_commit_author git (repo s) (commit_f (this s)))),
           Git (GitCommitCommitter (commit_f (this s))),
           Git (GitSignatureDup (git_commit_committer git (repo s) (commit_f (this s)))),
           Git (GitCommitParentcount (commit_f (this s))),
           UnlockRepository,
           JsSet ID_PROPERTY
             (JString (take 40 (git_oid_fmt git (git_commit_id git (repo s) (commit_f (this s)))))),
           JsSet MESSAGE_PROPERTY
             (JString (c_str (git_commit_message git (repo s) (commit_f (this s))))),
           JsSet AUTHOR_PROPERTY
             (CREATE_PERSON_OBJ (git_commit_author git (repo s) (commit_f (this s)))),
           JsSet COMMITTER_PROPERTY
             (CREATE_PERSON_OBJ (git_commit_committer git (repo s) (commit_f (this s)))),
           JsSet PARENTCOUNT_PROPERTY
             (JInt32 (git_commit_parentcount git (repo s) (commit_f (this s)))),
           Git (GitSignatureFree (git_commit_author git (repo s) (commit_f (this s)))),
           Git (GitSignatureFree (git_commit_committer git (repo s) (commit_f (this s))))]"
    by (simp add: tr new_events_def)
  show "lock_ok False (new_events s (load git s))"
    by (simp add: tr new_events_def)
  show "parentCount_f (this (load git s))
            = git_commit_parentcount git (repo s) (commit_f (this s))"
    by (simp add: l processInitData_fresh [OF p] loadInitData_data)
  show "this (load git s) =
            (this s)\<lparr>parentCount_f := git_commit_parentcount git (repo s) (commit_f (this s)),
              props :=
                [ID_PROPERTY \<mapsto>
                   (JString (take 40 (git_oid_fmt git (git_commit_id git (repo s) (commit_f (this s))))),
                    True),
                 MESSAGE_PROPERTY \<mapsto>
                   (JString (c_str (git_commit_message git (repo s) (commit_f (this s)))), False),
                 AUTHOR_PROPERTY \<mapsto>
                   (CREATE_PERSON_OBJ (git_commit_author git (repo s) (commit_f (this s))), False),
                 COMMITTER_PROPERTY \<mapsto>
                   (CREATE_PERSON_OBJ (git_commit_committer git (repo s) (commit_f (this s))), False),
                 PARENTCOUNT_PROPERTY \<mapsto>
                   (JInt32 (git_commit_parentcount git (repo s) (commit_f (this s))), True)]\<rparr>"
    by (simp add: l processInitData_fresh [OF p] loadInitData_data loadInitData_this)
qed

theorem load_single_locked_section_witness:
  "props (this (fresh 0)) = Map.empty
   \<and> new_events (fresh 0) (load demo_git (fresh 0)) =
       [LockRepository, Git (GitCommitId 5), Git (GitOidFmt 1), Git (GitCommitMessage 5),
        Git (GitCommitAuthor 5), Git (GitSignatureDup (Signature ''A'' ''a@x'' 1)),
        Git (GitCommitCommitter 5), Git (GitSignatureDup (Signature ''C'' ''c@x'' 2)),
        Git (GitCommitParentcount 5), UnlockRepository,
        JsSet ID_PROPERTY (JString (replicate 40 (CHR ''a''))),
        JsSet MESSAGE_PROPERTY (JString ''initial''),
        JsSet AUTHOR_PROPERTY (JPerson ''A'' ''a@x'' 1),
        JsSet COMMITTER_PROPERTY (JPerson ''C'' ''c@x'' 2),
        JsSet PARENTCOUNT_PROPERTY (JInt32 1),
        Git (GitSignatureFree (Signature ''A'' ''a@x'' 1)),
        Git (GitSignatureFree (Signature ''C'' ''c@x'' 2))]
   \<and> lock_ok False (new_events (fresh 0) (load demo_git (fresh 0)))
   \<and> parentCount_f (this (load demo_git (fresh 0))) = 1
   \<and> Get ID_PROPERTY (load demo_git (fresh 0)) = JString (replicate 40 (CHR ''a''))
   \<and> Get MESSAGE_PROPERTY (load demo_git (fresh 0)) = JString ''initial''
   \<and> Get AUTHOR_PROPERTY (load demo_git (fresh 0)) = JPerson ''A'' ''a@x'' 1
   \<and> Get COMMITTER_PROPERTY (load demo_git (fresh 0)) = JPerson ''C'' ''c@x'' 2
   \<and> Get PARENTCOUNT_PROPERTY (load demo_git (fresh 0)) = JInt32 1"
  using load_single_locked_section
    [where s = "fresh 0" and git = demo_git and s' = "fresh 0" and data = None]
  by (simp add: fresh_def demo_git_def Get_def)

subsection \<open>Methods that call libgit2 without the lock\<close>

text \<open>
  C2. \<open>Save\<close> on a loaded commit with a message and two signatures: the events it adds
  are four calls that write to the commit inside libgit2 and one that reads it, with no
  \<open>lockRepository\<close> before and no \<open>unlockRepository\<close> after, so the trace breaks the lock
  discipline. The same holds for \<open>GetTree\<close>. \<open>GetParent\<close> on the same wrapper brackets its
  one call with the lock.
\<close>

theorem Save_calls_backend_without_lock:
  "new_events (loaded 0) (snd (Save demo_git [] (loaded 0))) =
     [Git (GitCommitSetMessage 5 ''initial''),
      Git (GitCommitSetCommitter 5 (Signature ''C'' ''c@x'' 2)),
      Git (GitCommitSetAuthor 5 (Signature ''A'' ''a@x'' 1)),
      Git (GitObjectWrite 5),
      Git (GitCommitId 5),
      Git (GitOidAllocfmt 1),
      JsSet ID_PROPERTY (JString (replicate 40 (CHR ''a'')))]
   \<and> \<not> lock_ok False (new_events (loaded 0) (snd (Save demo_git [] (loaded 0))))
   \<and> new_events (loaded 0) (snd (GetTree demo_git [] (loaded 0)))
       = [Git (GitCommitTree 5), SyncRequestTree 21]
   \<and> \<not> lock_ok False (new_events (loaded 0) (snd (GetTree demo_git [] (loaded 0))))
   \<and> new_events (loaded 0) (snd (GetParent demo_git [JInt32 0] (loaded 0)))
       = [LockRepository, Git (GitCommitParent 5 0), UnlockRepository, SyncRequestCommit 11]
   \<and> lock_ok False (new_events (loaded 0) (snd (GetParent demo_git [JInt32 0] (loaded 0))))"
proof -
  have 1: "trace (snd (Save demo_git [] (loaded 0))) =
     [Git (GitCommitSetMessage 5 ''initial''),
      Git (GitCommitSetCommitter 5 (Signature ''C'' ''c@x'' 2)),
      Git (GitCommitSetAuthor 5 (Signature ''A'' ''a@x'' 1)),
      Git (GitObjectWrite 5),
      Git (GitCommitId 5),
      Git (GitOidAllocfmt 1),
      JsSet ID_PROPERTY (JString (replicate 40 (CHR ''a'')))]"
    by (simp add: Save_def CHECK_PROPERTY_def GET_SIGNATURE_PROPERTY_def loaded_facts
        demo_git_def GIT_SUCCESS_def ForceSet_def Let_def)
  have 2: "trace (snd (GetTree demo_git [] (loaded 0))) = [Git (GitCommitTree 5), SyncRequestTree 21]"
    by (simp add: GetTree_def loaded_facts demo_git_def Let_def)
  have 3: "trace (snd (GetParent demo_git [JInt32 0] (loaded 0)))
       = [LockRepository, Git (GitCommitParent 5 0), UnlockRepository, SyncRequestCommit 11]"
    by (simp add: GetParent_inline loaded_facts demo_git_def Let_def)
  show ?thesis
    by (simp add: new_events_def loaded_facts 1 2 3)
qed

text \<open>
  C5. \<open>SetTree\<close> has no branch for an argument that is neither a string nor a tree object:
  called with the number 42 it goes on to \<open>git_commit_set_tree\<close> with whatever the local
  \<open>tree\<close> held (here 99) and returns \<open>Undefined\<close>. \<open>AddParent\<close> has the branch, and throws
  "Invalid argument." before any call into libgit2.
\<close>

theorem SetTree_accepts_wrong_argument_kind:
  "fst (SetTree demo_git 99 [JInt32 42] (loaded 0)) = Inr Undefined
   \<and> new_events (loaded 0) (snd (SetTree demo_git 99 [JInt32 42] (loaded 0)))
       = [Git (GitCommitSetTree 5 99)]
   \<and> AddParent demo_git [JInt32 42] (loaded 0) = (Inl (Error ''Invalid argument.''), loaded 0)"
  by (simp add: SetTree_def AddParent_def arg_def loaded_facts new_events_def Let_def)

end
